theory Spec2Isabelle
  imports Complex_Main "HOL-Library.Word" "HOL-Library.List_Lexorder"
begin

text \<open>
  The server of the volunteer and event management platform: four stable maps
  (volunteers, events, registrations, feedback) behind nine Express routes that create
  and list records and look a volunteer up by id.  The handlers are embedded as functions
  on the state of the four maps; what they take from the JavaScript runtime, from the
  azle library, from \<open>uuid\<close> and from the clock is a parameter.
\<close>

section \<open>JavaScript values\<close>

text \<open>
  A JavaScript string is a sequence of 16-bit code units; the regular expression of the
  volunteer handler (which has no \<open>u\<close> flag) works on code units.  \<open>utf16\<close> writes an
  ASCII literal as such a sequence.
\<close>

type_synonym code_unit = "16 word"
type_synonym jsstring = "code_unit list"

definition utf16 :: "string \<Rightarrow> jsstring" where
  "utf16 s = map (\<lambda>c. of_char c) s"

text \<open>
  The numbers that \<open>JSON.parse\<close> can produce: a finite value (zero and minus zero are both
  \<open>Finite 0\<close>) or, for a literal that overflows, an infinity.  \<open>NaN\<close> has no JSON literal.
\<close>

datatype js_number = Finite rat | PosInfinity | NegInfinity

text \<open>
  The value of a property of \<open>req.body\<close>: what \<open>express.json()\<close> parsed, or \<open>undefined\<close>
  for a property that is absent.
\<close>

datatype jsval =
    JUndefined
  | JNull
  | JBool bool
  | JNum js_number
  | JStr jsstring
  | JArr "jsval list"
  | JObj "(jsstring \<times> jsval) list"

text \<open>
  \<open>req.body\<close> is the object that \<open>express.json()\<close> parsed (the empty object when the
  request has no JSON body), given by its own properties; \<open>body_prop body k\<close> is
  \<open>req.body.k\<close>.
\<close>

type_synonym body = "(jsstring \<times> jsval) list"

definition body_prop :: "body \<Rightarrow> string \<Rightarrow> jsval" where
  "body_prop b k = (case map_of b (utf16 k) of None \<Rightarrow> JUndefined | Some v \<Rightarrow> v)"

text \<open>\<open>!x\<close> is \<open>\<not> truthy x\<close>.\<close>

fun truthy :: "jsval \<Rightarrow> bool" where
  "truthy JUndefined = False"
| "truthy JNull = False"
| "truthy (JBool b) = b"
| "truthy (JNum n) = (n \<noteq> Finite 0)"
| "truthy (JStr s) = (s \<noteq> [])"
| "truthy (JArr xs) = True"
| "truthy (JObj kvs) = True"

fun typeof :: "jsval \<Rightarrow> string" where
  "typeof JUndefined = ''undefined''"
| "typeof JNull = ''object''"
| "typeof (JBool b) = ''boolean''"
| "typeof (JNum n) = ''number''"
| "typeof (JStr s) = ''string''"
| "typeof (JArr xs) = ''object''"
| "typeof (JObj kvs) = ''object''"

fun isArray :: "jsval \<Rightarrow> bool" where
  "isArray (JArr xs) = True"
| "isArray v = False"

text \<open>
  \<open>a === b\<close> between two values of this kind.  Primitives are compared by value.  An array
  or an object is equal only to itself, and a value read back from a stable map is never
  the object that the body parser has just built.
\<close>

fun strict_eq :: "jsval \<Rightarrow> jsval \<Rightarrow> bool" where
  "strict_eq JUndefined JUndefined = True"
| "strict_eq JNull JNull = True"
| "strict_eq (JBool a) (JBool b) = (a = b)"
| "strict_eq (JNum a) (JNum b) = (a = b)"
| "strict_eq (JStr a) (JStr b) = (a = b)"
| "strict_eq a b = False"

section \<open>Calls that can throw\<close>

text \<open>The outcome of a call: the value it returns, or an exception.\<close>

datatype 'a outcome = Returns 'a | Throws

text \<open>The outcomes of a sequence of calls: the first exception ends it.\<close>

fun collect :: "'a outcome list \<Rightarrow> 'a list outcome" where
  "collect [] = Returns []"
| "collect (Throws # os) = Throws"
| "collect (Returns x # os) =
     (case collect os of Throws \<Rightarrow> Throws | Returns xs \<Rightarrow> Returns (x # xs))"

section \<open>What a stable map gives back\<close>

text \<open>
  A stable map of azle keeps a value as the JSON text that its serializer writes and reads
  the text back through a reviver.  The reviver turns certain marker objects into values
  that are not JSON (a BigInt, NaN, a Principal, a typed array), and can throw on one.  A
  value that is read back is therefore either a JSON value again or a value that is not
  JSON; of the latter only one thing matters to the handlers, whether \<open>JSON.stringify\<close>
  (inside \<open>res.json\<close>) can write it (it throws on a BigInt).
\<close>

datatype revived = Json jsval | Host bool

text \<open>
  The values that are certain to be read back as they were stored: \<open>null\<close>, booleans,
  finite numbers, strings without surrogate code units, and arrays of such values.  They
  hold no object, so no marker, and nothing that the JSON text could alter.
\<close>

definition is_surrogate :: "code_unit \<Rightarrow> bool" where
  "is_surrogate u \<longleftrightarrow> 0xD800 \<le> u \<and> u \<le> 0xDFFF"

fun plain :: "jsval \<Rightarrow> bool" where
  "plain JUndefined = False"
| "plain JNull = True"
| "plain (JBool b) = True"
| "plain (JNum n) = (case n of Finite r \<Rightarrow> True | PosInfinity \<Rightarrow> False | NegInfinity \<Rightarrow> False)"
| "plain (JStr s) = list_all (\<lambda>u. \<not> is_surrogate u) s"
| "plain (JArr xs) = list_all plain xs"
| "plain (JObj kvs) = False"

text \<open>
  The built-ins of the JavaScript runtime and of the azle library that the handlers reach
  and whose results are not fixed by this program: printing a finite number, parsing a
  date string (\<open>None\<close> for \<open>NaN\<close>), printing a date in ISO format, and what a stable map
  reads back for a stored value that is not plain.
\<close>

record runtime =
  Number_toString :: "rat \<Rightarrow> jsstring"
  Date_parse :: "jsstring \<Rightarrow> int option"
  Date_toISOString :: "int \<Rightarrow> jsstring"
  stable_revive :: "jsval \<Rightarrow> revived outcome"

text \<open>What a stable map reads back for a stored value.\<close>

definition read_back :: "runtime \<Rightarrow> jsval \<Rightarrow> revived outcome" where
  "read_back rt v = (if plain v then Returns (Json v) else stable_revive rt v)"

text \<open>
  \<open>a === b\<close> where \<open>a\<close> was read back from a stable map and \<open>b\<close> is a value of the request.
  A value that is not JSON is strictly equal to no JSON value.
\<close>

fun strict_eq_read :: "revived \<Rightarrow> jsval \<Rightarrow> bool" where
  "strict_eq_read (Json a) b = strict_eq a b"
| "strict_eq_read (Host w) b = False"

text \<open>Whether \<open>JSON.stringify\<close> writes a value read back from a stable map.\<close>

fun writes :: "revived \<Rightarrow> bool" where
  "writes (Json a) = True"
| "writes (Host w) = w"

section \<open>Conversion to a string\<close>

fun join_comma :: "jsstring list \<Rightarrow> jsstring" where
  "join_comma [] = []"
| "join_comma [x] = x"
| "join_comma (x # y # ys) = x @ [0x2C] @ join_comma (y # ys)"

text \<open>
  \<open>ToString\<close>, as \<open>RegExp.prototype.test\<close> and the \<open>Date\<close> constructor apply it to their
  argument.  An array is joined with commas, \<open>null\<close> and \<open>undefined\<close> elements printing as
  the empty string.  An object prints as \<open>[object Object]\<close> through the \<open>toString\<close> that it
  inherits; an own property \<open>toString\<close> of a parsed object is no function and hides the
  inherited one, so the conversion throws a TypeError.
\<close>

fun to_string :: "runtime \<Rightarrow> jsval \<Rightarrow> jsstring outcome" where
  "to_string rt JUndefined = Returns (utf16 ''undefined'')"
| "to_string rt JNull = Returns (utf16 ''null'')"
| "to_string rt (JBool b) = Returns (if b then utf16 ''true'' else utf16 ''false'')"
| "to_string rt (JNum (Finite r)) = Returns (Number_toString rt r)"
| "to_string rt (JNum PosInfinity) = Returns (utf16 ''Infinity'')"
| "to_string rt (JNum NegInfinity) = Returns (utf16 ''-Infinity'')"
| "to_string rt (JStr s) = Returns s"
| "to_string rt (JArr xs) =
     (case collect (map (\<lambda>x. if x = JUndefined \<or> x = JNull then Returns []
                                else to_string rt x) xs) of
        Throws \<Rightarrow> Throws
      | Returns parts \<Rightarrow> Returns (join_comma parts))"
| "to_string rt (JObj kvs) =
     (if utf16 ''toString'' \<in> set (map fst kvs) then Throws
      else Returns (utf16 ''[object Object]''))"

section \<open>Dates\<close>

text \<open>
  A \<open>Date\<close> object: a time value in milliseconds since the epoch, or Invalid Date.  A date
  in a record stands for the date as JSON shows it; a stable map writes a date as that
  JSON and reads it back as such.
\<close>

datatype js_date = Date int | InvalidDate

definition TimeClip :: "rat \<Rightarrow> js_date" where
  "TimeClip t =
     (if \<bar>t\<bar> > 8640000000000000 then InvalidDate
      else Date (if t \<ge> 0 then \<lfloor>t\<rfloor> else \<lceil>t\<rceil>))"

text \<open>
  \<open>new Date(v)\<close> for one argument: a string (or an array or object, which \<open>ToPrimitive\<close>
  turns into a string, or throws as \<open>ToString\<close> does) is parsed; any other value is
  converted to a number and clipped.
\<close>

fun new_Date :: "runtime \<Rightarrow> jsval \<Rightarrow> js_date outcome" where
  "new_Date rt JUndefined = Returns InvalidDate"
| "new_Date rt JNull = Returns (Date 0)"
| "new_Date rt (JBool b) = Returns (Date (if b then 1 else 0))"
| "new_Date rt (JNum (Finite r)) = Returns (TimeClip r)"
| "new_Date rt (JNum PosInfinity) = Returns InvalidDate"
| "new_Date rt (JNum NegInfinity) = Returns InvalidDate"
| "new_Date rt v =
     (case to_string rt v of
        Throws \<Rightarrow> Throws
      | Returns s \<Rightarrow>
          Returns (case Date_parse rt s of
                     None \<Rightarrow> InvalidDate
                   | Some t \<Rightarrow> TimeClip (of_int t)))"


section \<open>The regular expression of the volunteer handler\<close>

text \<open>
  The character class escape \<open>\s\<close>: the white space and line terminator code points of
  ECMAScript.
\<close>

definition is_space :: "code_unit \<Rightarrow> bool" where
  "is_space u \<longleftrightarrow>
     u \<in> set [0x09, 0x0A, 0x0B, 0x0C, 0x0D, 0x20, 0xA0, 0x1680, 0x2028, 0x2029,
              0x202F, 0x205F, 0x3000, 0xFEFF]
     \<or> (0x2000 \<le> u \<and> u \<le> 0x200A)"

datatype class_item = ClassSpace | ClassChar code_unit

fun in_item :: "class_item \<Rightarrow> code_unit \<Rightarrow> bool" where
  "in_item ClassSpace u = is_space u"
| "in_item (ClassChar c) u = (u = c)"

text \<open>
  The two kinds of term the pattern is made of: a literal character, and a negated class
  under a greedy \<open>+\<close>.  A pattern is a sequence of terms between \<open>^\<close> and \<open>$\<close>.
\<close>

datatype regex_term = Lit code_unit | NegClassPlus "class_item list"

text \<open>
  Backtracking matcher for a pattern anchored at both ends: \<open>+\<close> first tries to take one
  more character and falls back to the rest of the pattern.
\<close>

fun regex_match :: "regex_term list \<Rightarrow> jsstring \<Rightarrow> bool" where
  "regex_match [] s = (s = [])"
| "regex_match (Lit c # rs) [] = False"
| "regex_match (Lit c # rs) (x # xs) = (x = c \<and> regex_match rs xs)"
| "regex_match (NegClassPlus cl # rs) [] = False"
| "regex_match (NegClassPlus cl # rs) (x # xs) =
     ((\<not> (\<exists>i \<in> set cl. in_item i x)) \<and>
      (regex_match (NegClassPlus cl # rs) xs \<or> regex_match rs xs))"

text \<open>\<open>/^[^\s@]+@[^\s@]+\.[^\s@]+$/\<close>\<close>

definition emailRegex :: "regex_term list" where
  "emailRegex =
     [NegClassPlus [ClassSpace, ClassChar 0x40], Lit 0x40,
      NegClassPlus [ClassSpace, ClassChar 0x40], Lit 0x2E,
      NegClassPlus [ClassSpace, ClassChar 0x40]]"

text \<open>
  \<open>emailRegex.test(v)\<close>: the argument is converted to a string first, which can throw.
\<close>

definition emailRegex_test :: "runtime \<Rightarrow> jsval \<Rightarrow> bool outcome" where
  "emailRegex_test rt v =
     (case to_string rt v of
        Throws \<Rightarrow> Throws
      | Returns s \<Rightarrow> Returns (regex_match emailRegex s))"





section \<open>The stable maps\<close>

text \<open>
  \<open>StableBTreeMap\<close> (of the azle library) is an ordered key-value store: \<open>insert\<close> adds a
  binding or replaces the value of a key that is present, \<open>get\<close> returns the value of a
  key or the sentinel \<open>None\<close>, \<open>values\<close> lists the values in key order.  It is modelled
  as the list of its bindings in the order of their keys, compared code unit by code unit,
  each value as it was inserted; \<open>get\<close> and \<open>values\<close> read the values back through the
  reader they are given, and throw when it throws.  Nothing proved below depends on the
  order.
\<close>

type_synonym 'v stable_map = "(jsstring \<times> 'v) list"

fun StableBTreeMap_insert :: "jsstring \<Rightarrow> 'v \<Rightarrow> 'v stable_map \<Rightarrow> 'v stable_map" where
  "StableBTreeMap_insert k v [] = [(k, v)]"
| "StableBTreeMap_insert k v ((k', v') # m) =
     (if k = k' then (k, v) # m
      else if k < k' then (k, v) # (k', v') # m
      else (k', v') # StableBTreeMap_insert k v m)"

definition StableBTreeMap_get ::
  "('v \<Rightarrow> 'r outcome) \<Rightarrow> 'v stable_map \<Rightarrow> jsstring \<Rightarrow> 'r option outcome" where
  "StableBTreeMap_get reader m k =
     (case map_of m k of
        None \<Rightarrow> Returns None
      | Some v \<Rightarrow> (case reader v of Throws \<Rightarrow> Throws | Returns r \<Rightarrow> Returns (Some r)))"

definition StableBTreeMap_values :: "('v \<Rightarrow> 'r outcome) \<Rightarrow> 'v stable_map \<Rightarrow> 'r list outcome" where
  "StableBTreeMap_values reader m = collect (map (\<lambda>kv. reader (snd kv)) m)"

section \<open>The four entities\<close>

text \<open>
  A field that a constructor copies from the request holds the value of the request, of
  whatever type passed the handler's checks.  A record read back from its map has the
  same shape, its copied fields holding what the map reads back.
\<close>

record 'v volunteer =
  vol_id :: jsstring
  vol_name :: 'v
  vol_email :: 'v
  vol_contact :: 'v
  vol_skills :: 'v
  vol_createdAt :: js_date

record 'v event =
  ev_id :: jsstring
  ev_title :: 'v
  ev_description :: 'v
  ev_dateTime :: js_date
  ev_location :: 'v
  ev_organizerId :: 'v
  ev_createdAt :: js_date

record 'v registration =
  reg_id :: jsstring
  reg_eventId :: 'v
  reg_volunteerId :: 'v
  reg_status :: 'v
  reg_registeredAt :: js_date
  reg_attendedAt :: "js_date option"

record 'v feedback =
  fb_id :: jsstring
  fb_volunteerId :: 'v
  fb_eventId :: 'v
  fb_feedback :: 'v
  fb_rating :: 'v
  fb_createdAt :: js_date

text \<open>
  What a constructor obtains from its surroundings: the identifier that \<open>uuidv4()\<close>
  returns and the time that \<open>new Date()\<close> reads.
\<close>

record ambient =
  uuidv4 :: jsstring
  clock :: int

definition new_Volunteer ::
  "ambient \<Rightarrow> jsval \<Rightarrow> jsval \<Rightarrow> jsval \<Rightarrow> jsval \<Rightarrow> jsval volunteer" where
  "new_Volunteer a name email contact skills =
     \<lparr>vol_id = uuidv4 a, vol_name = name, vol_email = email, vol_contact = contact,
      vol_skills = skills, vol_createdAt = Date (clock a)\<rparr>"

definition new_Event ::
  "ambient \<Rightarrow> jsval \<Rightarrow> jsval \<Rightarrow> js_date \<Rightarrow> jsval \<Rightarrow> jsval \<Rightarrow> jsval event" where
  "new_Event a title description dateTime location organizerId =
     \<lparr>ev_id = uuidv4 a, ev_title = title, ev_description = description,
      ev_dateTime = dateTime, ev_location = location, ev_organizerId = organizerId,
      ev_createdAt = Date (clock a)\<rparr>"

definition new_Registration ::
  "ambient \<Rightarrow> jsval \<Rightarrow> jsval \<Rightarrow> jsval \<Rightarrow> jsval registration" where
  "new_Registration a eventId volunteerId status =
     \<lparr>reg_id = uuidv4 a, reg_eventId = eventId, reg_volunteerId = volunteerId,
      reg_status = status, reg_registeredAt = Date (clock a), reg_attendedAt = None\<rparr>"

definition new_Feedback ::
  "ambient \<Rightarrow> jsval \<Rightarrow> jsval \<Rightarrow> jsval \<Rightarrow> jsval \<Rightarrow> jsval feedback" where
  "new_Feedback a volunteerId eventId fb rating =
     \<lparr>fb_id = uuidv4 a, fb_volunteerId = volunteerId, fb_eventId = eventId,
      fb_feedback = fb, fb_rating = rating, fb_createdAt = Date (clock a)\<rparr>"

text \<open>
  Reading a record back from its map: each copied field is read back, and the record
  cannot be read when one of them throws.
\<close>

definition read_volunteer :: "runtime \<Rightarrow> jsval volunteer \<Rightarrow> revived volunteer outcome" where
  "read_volunteer rt v =
     (case collect [read_back rt (vol_name v), read_back rt (vol_email v),
                    read_back rt (vol_contact v), read_back rt (vol_skills v)] of
        Returns [name, email, contact, skills] \<Rightarrow>
          Returns \<lparr>vol_id = vol_id v, vol_name = name, vol_email = email,
                   vol_contact = contact, vol_skills = skills,
                   vol_createdAt = vol_createdAt v\<rparr>
      | _ \<Rightarrow> Throws)"

definition read_event :: "runtime \<Rightarrow> jsval event \<Rightarrow> revived event outcome" where
  "read_event rt e =
     (case collect [read_back rt (ev_title e), read_back rt (ev_description e),
                    read_back rt (ev_location e), read_back rt (ev_organizerId e)] of
        Returns [title, description, location, organizerId] \<Rightarrow>
          Returns \<lparr>ev_id = ev_id e, ev_title = title, ev_description = description,
                   ev_dateTime = ev_dateTime e, ev_location = location,
                   ev_organizerId = organizerId, ev_createdAt = ev_createdAt e\<rparr>
      | _ \<Rightarrow> Throws)"

definition read_registration ::
  "runtime \<Rightarrow> jsval registration \<Rightarrow> revived registration outcome" where
  "read_registration rt g =
     (case collect [read_back rt (reg_eventId g), read_back rt (reg_volunteerId g),
                    read_back rt (reg_status g)] of
        Returns [eventId, volunteerId, status] \<Rightarrow>
          Returns \<lparr>reg_id = reg_id g, reg_eventId = eventId, reg_volunteerId = volunteerId,
                   reg_status = status, reg_registeredAt = reg_registeredAt g,
                   reg_attendedAt = reg_attendedAt g\<rparr>
      | _ \<Rightarrow> Throws)"

definition read_feedback :: "runtime \<Rightarrow> jsval feedback \<Rightarrow> revived feedback outcome" where
  "read_feedback rt f =
     (case collect [read_back rt (fb_volunteerId f), read_back rt (fb_eventId f),
                    read_back rt (fb_feedback f), read_back rt (fb_rating f)] of
        Returns [volunteerId, eventId, fb, rating] \<Rightarrow>
          Returns \<lparr>fb_id = fb_id f, fb_volunteerId = volunteerId, fb_eventId = eventId,
                   fb_feedback = fb, fb_rating = rating, fb_createdAt = fb_createdAt f\<rparr>
      | _ \<Rightarrow> Throws)"

text \<open>Whether \<open>JSON.stringify\<close> writes a record read back from its map.\<close>

definition writes_volunteer :: "revived volunteer \<Rightarrow> bool" where
  "writes_volunteer v \<longleftrightarrow>
     writes (vol_name v) \<and> writes (vol_email v) \<and> writes (vol_contact v) \<and>
     writes (vol_skills v)"

definition writes_event :: "revived event \<Rightarrow> bool" where
  "writes_event e \<longleftrightarrow>
     writes (ev_title e) \<and> writes (ev_description e) \<and> writes (ev_location e) \<and>
     writes (ev_organizerId e)"

definition writes_registration :: "revived registration \<Rightarrow> bool" where
  "writes_registration g \<longleftrightarrow>
     writes (reg_eventId g) \<and> writes (reg_volunteerId g) \<and> writes (reg_status g)"

definition writes_feedback :: "revived feedback \<Rightarrow> bool" where
  "writes_feedback f \<longleftrightarrow>
     writes (fb_volunteerId f) \<and> writes (fb_eventId f) \<and> writes (fb_feedback f) \<and>
     writes (fb_rating f)"

section \<open>State, requests and responses\<close>

record state =
  volunteersStorage :: "jsval volunteer stable_map"
  eventsStorage :: "jsval event stable_map"
  registrationsStorage :: "jsval registration stable_map"
  feedbacksStorage :: "jsval feedback stable_map"

definition init_state :: state where
  "init_state = \<lparr>volunteersStorage = [], eventsStorage = [], registrationsStorage = [],
                  feedbacksStorage = []\<rparr>"

text \<open>
  The body of a response: \<open>{error}\<close>, \<open>{Status, error}\<close>, \<open>{status, error}\<close>, a message with
  its payload, or the page with which Express answers an exception that leaves a
  handler.  The payload of a creation is the record just built; the payload of a listing
  holds the records read back from the map, and the payload of the lookup by id is what
  the map's \<open>get\<close> returned, the wrapper \<open>Some\<close> around the record read back.
\<close>

datatype resp_body =
    ErrorBody string
  | StatusErrorBody nat string
  | LowerStatusErrorBody nat string
  | ExpressErrorPage
  | VolunteerBody string "jsval volunteer"
  | VolunteerOptBody string "revived volunteer option"
  | VolunteersBody string "revived volunteer list"
  | EventBody string "jsval event"
  | EventsBody string "revived event list"
  | RegistrationBody string "jsval registration"
  | RegistrationsBody string "revived registration list"
  | FeedbackBody string "jsval feedback"
  | FeedbacksBody string "revived feedback list"

datatype response = Response nat resp_body

fun status_of :: "response \<Rightarrow> nat" where
  "status_of (Response code b) = code"

datatype request =
    PostVolunteers body
  | GetVolunteerById jsval
  | GetVolunteers
  | PostEvents body
  | GetEvents
  | PostRegistrations body
  | GetRegistrations
  | PostFeedbacks body
  | GetFeedbacks

section \<open>The handlers\<close>

text \<open>
  Each handler takes the state and returns the response with the state it leaves.  An
  exception inside a \<open>try\<close> block is answered by its \<open>catch\<close> with 500 and the message of
  the handler; an exception outside one leaves the handler and is answered by Express
  with 500.  The calls that can throw are the conversion of a value of the request to a
  string (in \<open>emailRegex.test\<close> and in \<open>new Date\<close>), the reading of a stable map (\<open>get\<close>,
  \<open>values\<close>) and the writing of what was read to the response.  The constructors of the
  four classes, \<open>insert\<close> and the writing of a record just built do not throw.
\<close>

definition volunteer_input_error :: string where
  "volunteer_input_error =
     ''Invalid input: Ensure 'name', 'contact', 'email', and 'skills' are provided and are of the correct types.''"

definition email_format_error :: string where
  "email_format_error = ''Invalid input: Ensure 'email' is a valid email address.''"

definition email_conflict_error :: string where
  "email_conflict_error = ''Invalid input: Volunteer with the same email already exists.''"

definition post_volunteers :: "runtime \<Rightarrow> ambient \<Rightarrow> body \<Rightarrow> state \<Rightarrow> response \<times> state" where
  "post_volunteers rt a b st =
     (if \<not> truthy (body_prop b ''name'') \<or>
         typeof (body_prop b ''name'') \<noteq> ''string'' \<or>
         \<not> truthy (body_prop b ''email'') \<or>
         \<not> truthy (body_prop b ''contact'') \<or>
         typeof (body_prop b ''contact'') \<noteq> ''string'' \<or>
         \<not> truthy (body_prop b ''skills'') \<or>
         \<not> isArray (body_prop b ''skills'')
      then (Response 400 (ErrorBody volunteer_input_error), st)
      else
        (case emailRegex_test rt (body_prop b ''email'') of
           Throws \<Rightarrow> (Response 500 ExpressErrorPage, st)
         | Returns False \<Rightarrow> (Response 400 (StatusErrorBody 400 email_format_error), st)
         | Returns True \<Rightarrow>
             (case StableBTreeMap_values (read_volunteer rt) (volunteersStorage st) of
                Throws \<Rightarrow> (Response 500 ExpressErrorPage, st)
              | Returns existingVolunteers \<Rightarrow>
                  (case find (\<lambda>volunteer. strict_eq_read (vol_email volunteer)
                                             (body_prop b ''email''))
                          existingVolunteers of
                     Some existingVolunteer \<Rightarrow>
                       (Response 400 (StatusErrorBody 400 email_conflict_error), st)
                   | None \<Rightarrow>
                       (let volunteer =
                              new_Volunteer a (body_prop b ''name'') (body_prop b ''email'')
                                (body_prop b ''contact'') (body_prop b ''skills'')
                        in (Response 201
                              (VolunteerBody ''Volunteer created successfully'' volunteer),
                            st\<lparr>volunteersStorage :=
                                 StableBTreeMap_insert (vol_id volunteer) volunteer
                                   (volunteersStorage st)\<rparr>))))))"

text \<open>
  \<open>req.params.id\<close> is a string whenever the route matches; it is a value of any type here,
  so that the branch of \<open>typeof volunteerId !== "string"\<close>, which holds for every value but
  a string, is there.  \<open>get\<close> is called outside the \<open>try\<close> block.  \<open>volunteer\<close>, the result
  of \<open>get\<close>, goes into the response as it is; writing it can throw, inside the \<open>try\<close> block.
\<close>

definition volunteer_lookup_error :: string where
  "volunteer_lookup_error = ''Server error occurred while retrieving the volunteer.''"

definition get_volunteer_by_id :: "runtime \<Rightarrow> jsval \<Rightarrow> state \<Rightarrow> response \<times> state" where
  "get_volunteer_by_id rt idv st =
     (case idv of
        JStr volunteerId \<Rightarrow>
          (case StableBTreeMap_get (read_volunteer rt) (volunteersStorage st) volunteerId of
             Throws \<Rightarrow> (Response 500 ExpressErrorPage, st)
           | Returns None \<Rightarrow>
               (Response 404
                  (LowerStatusErrorBody 404 ''Volunteer with the provided ID does not exist.''),
                st)
           | Returns (Some v) \<Rightarrow>
               (if writes_volunteer v
                then (Response 200
                        (VolunteerOptBody ''Volunteer retrieved successfully'' (Some v)),
                      st)
                else (Response 500 (ErrorBody volunteer_lookup_error), st)))
      | _ \<Rightarrow> (Response 400 (ErrorBody ''Invalid input: Ensure 'id' is a string.''), st))"

definition get_volunteers :: "runtime \<Rightarrow> state \<Rightarrow> response \<times> state" where
  "get_volunteers rt st =
     (case StableBTreeMap_values (read_volunteer rt) (volunteersStorage st) of
        Throws \<Rightarrow>
          (Response 500 (ErrorBody ''Server error occurred while retrieving volunteers.''), st)
      | Returns volunteers \<Rightarrow>
          (if list_all writes_volunteer volunteers
           then (Response 200 (VolunteersBody ''Volunteers retrieved successfully'' volunteers),
                 st)
           else (Response 500
                   (ErrorBody ''Server error occurred while retrieving volunteers.''), st)))"

definition event_input_error :: string where
  "event_input_error =
     ''Invalid input: Ensure 'title', 'description', 'dateTime', 'location', and 'organizerId' are provided and are of the correct types.''"

definition event_create_error :: string where
  "event_create_error = ''Server error occurred while creating the event.''"

definition post_events :: "runtime \<Rightarrow> ambient \<Rightarrow> body \<Rightarrow> state \<Rightarrow> response \<times> state" where
  "post_events rt a b st =
     (if \<not> truthy (body_prop b ''title'') \<or>
         typeof (body_prop b ''title'') \<noteq> ''string'' \<or>
         \<not> truthy (body_prop b ''description'') \<or>
         typeof (body_prop b ''description'') \<noteq> ''string'' \<or>
         \<not> truthy (body_prop b ''dateTime'') \<or>
         \<not> truthy (body_prop b ''location'') \<or>
         typeof (body_prop b ''location'') \<noteq> ''string'' \<or>
         \<not> truthy (body_prop b ''organizerId'') \<or>
         typeof (body_prop b ''organizerId'') \<noteq> ''string''
      then (Response 400 (ErrorBody event_input_error), st)
      else
        (case new_Date rt (body_prop b ''dateTime'') of
           Throws \<Rightarrow> (Response 500 (ErrorBody event_create_error), st)
         | Returns dateTime \<Rightarrow>
             (let event = new_Event a (body_prop b ''title'') (body_prop b ''description'')
                            dateTime (body_prop b ''location'') (body_prop b ''organizerId'')
              in (Response 201 (EventBody ''Event created successfully'' event),
                  st\<lparr>eventsStorage :=
                       StableBTreeMap_insert (ev_id event) event (eventsStorage st)\<rparr>))))"

definition get_events :: "runtime \<Rightarrow> state \<Rightarrow> response \<times> state" where
  "get_events rt st =
     (case StableBTreeMap_values (read_event rt) (eventsStorage st) of
        Throws \<Rightarrow>
          (Response 500 (ErrorBody ''Server error occurred while retrieving events.''), st)
      | Returns events \<Rightarrow>
          (if list_all writes_event events
           then (Response 200 (EventsBody ''Events retrieved successfully'' events), st)
           else (Response 500
                   (ErrorBody ''Server error occurred while retrieving events.''), st)))"

definition registration_input_error :: string where
  "registration_input_error =
     ''Invalid input: Ensure 'eventId', 'volunteerId', and 'status' are provided and are of the correct types.''"

definition post_registrations :: "ambient \<Rightarrow> body \<Rightarrow> state \<Rightarrow> response \<times> state" where
  "post_registrations a b st =
     (if \<not> truthy (body_prop b ''eventId'') \<or>
         typeof (body_prop b ''eventId'') \<noteq> ''string'' \<or>
         \<not> truthy (body_prop b ''volunteerId'') \<or>
         typeof (body_prop b ''volunteerId'') \<noteq> ''string'' \<or>
         \<not> truthy (body_prop b ''status'') \<or>
         typeof (body_prop b ''status'') \<noteq> ''string''
      then (Response 400 (ErrorBody registration_input_error), st)
      else
        (let registration = new_Registration a (body_prop b ''eventId'')
                              (body_prop b ''volunteerId'') (body_prop b ''status'')
         in (Response 201 (RegistrationBody ''Registration created successfully'' registration),
             st\<lparr>registrationsStorage :=
                  StableBTreeMap_insert (reg_id registration) registration
                    (registrationsStorage st)\<rparr>)))"

definition get_registrations :: "runtime \<Rightarrow> state \<Rightarrow> response \<times> state" where
  "get_registrations rt st =
     (case StableBTreeMap_values (read_registration rt) (registrationsStorage st) of
        Throws \<Rightarrow>
          (Response 500
             (ErrorBody ''Server error occurred while retrieving registrations.''), st)
      | Returns registrations \<Rightarrow>
          (if list_all writes_registration registrations
           then (Response 200
                   (RegistrationsBody ''Registrations retrieved successfully'' registrations),
                 st)
           else (Response 500
                   (ErrorBody ''Server error occurred while retrieving registrations.''),
                 st)))"

definition feedback_input_error :: string where
  "feedback_input_error =
     ''Invalid input: Ensure 'volunteerId', 'eventId', 'feedback', and 'rating' are provided and are of the correct types.''"

definition post_feedbacks :: "ambient \<Rightarrow> body \<Rightarrow> state \<Rightarrow> response \<times> state" where
  "post_feedbacks a b st =
     (if \<not> truthy (body_prop b ''volunteerId'') \<or>
         typeof (body_prop b ''volunteerId'') \<noteq> ''string'' \<or>
         \<not> truthy (body_prop b ''eventId'') \<or>
         typeof (body_prop b ''eventId'') \<noteq> ''string'' \<or>
         \<not> truthy (body_prop b ''feedback'') \<or>
         typeof (body_prop b ''feedback'') \<noteq> ''string'' \<or>
         \<not> truthy (body_prop b ''rating'') \<or>
         typeof (body_prop b ''rating'') \<noteq> ''number''
      then (Response 400 (ErrorBody feedback_input_error), st)
      else
        (let feedback = new_Feedback a (body_prop b ''volunteerId'') (body_prop b ''eventId'')
                          (body_prop b ''feedback'') (body_prop b ''rating'')
         in (Response 201 (FeedbackBody ''Feedback created successfully'' feedback),
             st\<lparr>feedbacksStorage :=
                  StableBTreeMap_insert (fb_id feedback) feedback (feedbacksStorage st)\<rparr>)))"

definition get_feedbacks :: "runtime \<Rightarrow> state \<Rightarrow> response \<times> state" where
  "get_feedbacks rt st =
     (case StableBTreeMap_values (read_feedback rt) (feedbacksStorage st) of
        Throws \<Rightarrow>
          (Response 500 (ErrorBody ''Server error occurred while retrieving feedback.''), st)
      | Returns feedbacks \<Rightarrow>
          (if list_all writes_feedback feedbacks
           then (Response 200 (FeedbacksBody ''Feedback retrieved successfully'' feedbacks), st)
           else (Response 500
                   (ErrorBody ''Server error occurred while retrieving feedback.''), st)))"

text \<open>The routes of the server.\<close>

fun handle :: "runtime \<Rightarrow> ambient \<Rightarrow> request \<Rightarrow> state \<Rightarrow> response \<times> state" where
  "handle rt a (PostVolunteers b) st = post_volunteers rt a b st"
| "handle rt a (GetVolunteerById idv) st = get_volunteer_by_id rt idv st"
| "handle rt a GetVolunteers st = get_volunteers rt st"
| "handle rt a (PostEvents b) st = post_events rt a b st"
| "handle rt a GetEvents st = get_events rt st"
| "handle rt a (PostRegistrations b) st = post_registrations a b st"
| "handle rt a GetRegistrations st = get_registrations rt st"
| "handle rt a (PostFeedbacks b) st = post_feedbacks a b st"
| "handle rt a GetFeedbacks st = get_feedbacks rt st"

text \<open>
  The server handles one request at a time: a run is a sequence of requests, each with
  what its handler obtains from the surroundings, and leaves the state after the last.
\<close>

fun run :: "runtime \<Rightarrow> (ambient \<times> request) list \<Rightarrow> state \<Rightarrow> state" where
  "run rt [] st = st"
| "run rt ((a, r) # rest) st = run rt rest (snd (handle rt a r st))"

section \<open>The collection of a route\<close>

text \<open>
  The stable map that the handler of a route names, and what it means for two states to
  agree on one collection, or on the three others.
\<close>

datatype collection = Volunteers | Events | Registrations | Feedbacks

fun collection_of :: "request \<Rightarrow> collection" where
  "collection_of (PostVolunteers b) = Volunteers"
| "collection_of (GetVolunteerById idv) = Volunteers"
| "collection_of GetVolunteers = Volunteers"
| "collection_of (PostEvents b) = Events"
| "collection_of GetEvents = Events"
| "collection_of (PostRegistrations b) = Registrations"
| "collection_of GetRegistrations = Registrations"
| "collection_of (PostFeedbacks b) = Feedbacks"
| "collection_of GetFeedbacks = Feedbacks"

fun same_on :: "collection \<Rightarrow> state \<Rightarrow> state \<Rightarrow> bool" where
  "same_on Volunteers s t = (volunteersStorage s = volunteersStorage t)"
| "same_on Events s t = (eventsStorage s = eventsStorage t)"
| "same_on Registrations s t = (registrationsStorage s = registrationsStorage t)"
| "same_on Feedbacks s t = (feedbacksStorage s = feedbacksStorage t)"

definition same_off :: "collection \<Rightarrow> state \<Rightarrow> state \<Rightarrow> bool" where
  "same_off c s t = list_all (\<lambda>d. d = c \<or> same_on d s t) [Volunteers, Events, Registrations, Feedbacks]"

text \<open>The keys of a collection, in the order of the map.\<close>

fun keys_of :: "collection \<Rightarrow> state \<Rightarrow> jsstring list" where
  "keys_of Volunteers s = map fst (volunteersStorage s)"
| "keys_of Events s = map fst (eventsStorage s)"
| "keys_of Registrations s = map fst (registrationsStorage s)"
| "keys_of Feedbacks s = map fst (feedbacksStorage s)"

section \<open>Records that are read back as they were stored\<close>

text \<open>
  A record whose copied fields are plain, and the record that its map reads back for it:
  the same fields, as JSON values.  A collection is plain when all its records are.
\<close>

definition plain_volunteer :: "jsval volunteer \<Rightarrow> bool" where
  "plain_volunteer v \<longleftrightarrow>
     plain (vol_name v) \<and> plain (vol_email v) \<and> plain (vol_contact v) \<and> plain (vol_skills v)"




definition as_read_volunteer :: "jsval volunteer \<Rightarrow> revived volunteer" where
  "as_read_volunteer v =
     \<lparr>vol_id = vol_id v, vol_name = Json (vol_name v), vol_email = Json (vol_email v),
      vol_contact = Json (vol_contact v), vol_skills = Json (vol_skills v),
      vol_createdAt = vol_createdAt v\<rparr>"

definition as_read_event :: "jsval event \<Rightarrow> revived event" where
  "as_read_event e =
     \<lparr>ev_id = ev_id e, ev_title = Json (ev_title e), ev_description = Json (ev_description e),
      ev_dateTime = ev_dateTime e, ev_location = Json (ev_location e),
      ev_organizerId = Json (ev_organizerId e), ev_createdAt = ev_createdAt e\<rparr>"

definition as_read_registration :: "jsval registration \<Rightarrow> revived registration" where
  "as_read_registration g =
     \<lparr>reg_id = reg_id g, reg_eventId = Json (reg_eventId g),
      reg_volunteerId = Json (reg_volunteerId g), reg_status = Json (reg_status g),
      reg_registeredAt = reg_registeredAt g, reg_attendedAt = reg_attendedAt g\<rparr>"

definition as_read_feedback :: "jsval feedback \<Rightarrow> revived feedback" where
  "as_read_feedback f =
     \<lparr>fb_id = fb_id f, fb_volunteerId = Json (fb_volunteerId f),
      fb_eventId = Json (fb_eventId f), fb_feedback = Json (fb_feedback f),
      fb_rating = Json (fb_rating f), fb_createdAt = fb_createdAt f\<rparr>"


text \<open>
  The emails of a list of volunteers that are plain text, in the order of the list.
\<close>

definition text_emails :: "jsval volunteer list \<Rightarrow> jsstring list" where
  "text_emails vs =
     concat (map (\<lambda>v. case vol_email v of
                        JStr e \<Rightarrow> (if plain (JStr e) then [e] else [])
                      | _ \<Rightarrow> []) vs)"

section \<open>Example inputs\<close>

text \<open>
  A runtime for the examples.  They print no number and no date and hand the date parser
  only text that is no date, so these three functions are constant.  Of the stored values
  that are not plain it knows the two of the examples: the array with the marker of the
  BigInt 5 is read back with a BigInt in it, which \<open>JSON.stringify\<close> does not write, and
  the array with the marker of the Principal \<open>x\<close> is not read back, as \<open>x\<close> is no
  Principal.
\<close>

definition bigint_skills :: jsval where
  "bigint_skills = JArr [JObj [(utf16 ''__bigint__'', JStr (utf16 ''5''))]]"

definition principal_skills :: jsval where
  "principal_skills = JArr [JObj [(utf16 ''__principal__'', JStr (utf16 ''x''))]]"

definition example_runtime :: runtime where
  "example_runtime =
     \<lparr>Number_toString = (\<lambda>r. utf16 ''0''),
      Date_parse = (\<lambda>s. None),
      Date_toISOString = (\<lambda>t. utf16 ''1970-01-01T00:00:00.000Z''),
      stable_revive = (\<lambda>v. if v = bigint_skills then Returns (Host False)
                            else if v = principal_skills then Throws
                            else Returns (Json v))\<rparr>"

definition amb :: "string \<Rightarrow> int \<Rightarrow> ambient" where
  "amb u t = \<lparr>uuidv4 = utf16 u, clock = t\<rparr>"

definition volunteer_body :: "jsval \<Rightarrow> body" where
  "volunteer_body email =
     [(utf16 ''name'', JStr (utf16 ''Ann'')), (utf16 ''email'', email),
      (utf16 ''contact'', JStr (utf16 ''555'')),
      (utf16 ''skills'', JArr [JStr (utf16 ''first-aid'')])]"

definition event_body :: "jsval \<Rightarrow> body" where
  "event_body dateTime =
     [(utf16 ''title'', JStr (utf16 ''Cleanup'')), (utf16 ''description'', JStr (utf16 ''Beach'')),
      (utf16 ''dateTime'', dateTime), (utf16 ''location'', JStr (utf16 ''Pier'')),
      (utf16 ''organizerId'', JStr (utf16 ''v1''))]"

definition registration_body :: "jsval \<Rightarrow> body" where
  "registration_body status =
     [(utf16 ''eventId'', JStr (utf16 ''e1'')), (utf16 ''volunteerId'', JStr (utf16 ''v1'')),
      (utf16 ''status'', status)]"

definition feedback_body :: "jsval option \<Rightarrow> body" where
  "feedback_body rating =
     [(utf16 ''volunteerId'', JStr (utf16 ''v1'')), (utf16 ''eventId'', JStr (utf16 ''e1'')),
      (utf16 ''feedback'', JStr (utf16 ''Great''))] @
     (case rating of None \<Rightarrow> [] | Some r \<Rightarrow> [(utf16 ''rating'', r)])"

definition ann :: "string \<Rightarrow> int \<Rightarrow> jsval \<Rightarrow> jsval volunteer" where
  "ann u t email =
     new_Volunteer (amb u t) (JStr (utf16 ''Ann'')) email (JStr (utf16 ''555''))
       (JArr [JStr (utf16 ''first-aid'')])"


section \<open>The pattern and its reading\<close>





section \<open>The stable maps: insertion and reading\<close>

lemma map_of_insert:
  "map_of (StableBTreeMap_insert k v m) = (map_of m)(k \<mapsto> v)"
  by (induction m) (auto simp: fun_eq_iff)

lemma insert_subset:
  "set (StableBTreeMap_insert k v m) \<subseteq> insert (k, v) (set m)"
  by (induction m) (auto split: if_splits)

lemma insert_fresh_split:
  "k \<notin> fst ` set m \<Longrightarrow>
     \<exists>xs ys. m = xs @ ys \<and> StableBTreeMap_insert k v m = xs @ [(k, v)] @ ys"
proof (induction m)
  case Nil
  then show ?case by simp
next
  case (Cons p m)
  obtain k' v' where p: "p = (k', v')" by (cases p)
  with Cons.prems have ne: "k \<noteq> k'" and fresh: "k \<notin> fst ` set m" by auto
  show ?case
  proof (cases "k < k'")
    case True
    with p ne have "StableBTreeMap_insert k v (p # m) = [] @ [(k, v)] @ (p # m)" by simp
    then show ?thesis by blast
  next
    case False
    from Cons.IH[OF fresh] obtain xs ys where
      s: "m = xs @ ys" "StableBTreeMap_insert k v m = xs @ [(k, v)] @ ys" by blast
    from False p ne s have "p # m = (p # xs) @ ys"
      "StableBTreeMap_insert k v (p # m) = (p # xs) @ [(k, v)] @ ys" by simp_all
    then show ?thesis by blast
  qed
qed

lemma keys_insert_fresh:
  assumes "k \<notin> fst ` set m"
  shows "\<exists>xs ys. map fst m = xs @ ys \<and> map fst (StableBTreeMap_insert k v m) = xs @ k # ys"
proof -
  from insert_fresh_split[OF assms] obtain xs ys where
    "m = xs @ ys" "StableBTreeMap_insert k v m = xs @ [(k, v)] @ ys" by blast
  then have "map fst m = map fst xs @ map fst ys"
    "map fst (StableBTreeMap_insert k v m) = map fst xs @ k # map fst ys" by simp_all
  then show ?thesis by blast
qed


lemma strict_eq_JArr: "\<not> strict_eq x (JArr ys)"
  by (cases x) simp_all

lemma strict_eq_read_JArr: "\<not> strict_eq_read x (JArr ys)"
  by (cases x) (simp_all add: strict_eq_JArr)

lemma collect_Returns:
  "collect (map (\<lambda>x. Returns (f x)) xs) = Returns (map f xs)"
  by (induction xs) simp_all

lemma collect_Throws_or_Returns:
  "collect os = Returns xs \<Longrightarrow> os = map Returns xs"
proof (induction os arbitrary: xs)
  case Nil
  then show ?case by simp
next
  case (Cons o1 os)
  then show ?case by (cases o1) (auto split: outcome.splits)
qed

lemma read_back_plain: "plain v \<Longrightarrow> read_back rt v = Returns (Json v)"
  by (simp add: read_back_def)

lemma read_volunteer_plain:
  "plain_volunteer v \<Longrightarrow> read_volunteer rt v = Returns (as_read_volunteer v)"
  by (simp add: plain_volunteer_def read_volunteer_def as_read_volunteer_def read_back_plain)




lemma values_all_read:
  assumes "list_all P (map snd m)" and "\<And>v. P v \<Longrightarrow> reader v = Returns (f v)"
  shows "StableBTreeMap_values reader m = Returns (map (\<lambda>kv. f (snd kv)) m)"
proof -
  have "map (\<lambda>kv. reader (snd kv)) m = map (\<lambda>kv. Returns (f (snd kv))) m"
    using assms by (induction m) auto
  then have "collect (map (\<lambda>kv. reader (snd kv)) m) =
             collect (map (\<lambda>kv. Returns (f (snd kv))) m)"
    by (rule arg_cong)
  also have "\<dots> = Returns (map (\<lambda>kv. f (snd kv)) m)"
    by (rule collect_Returns)
  finally show ?thesis by (simp add: StableBTreeMap_values_def)
qed


lemma get_present:
  "map_of m k = Some v \<Longrightarrow> reader v = Returns r \<Longrightarrow>
   StableBTreeMap_get reader m k = Returns (Some r)"
  by (simp add: StableBTreeMap_get_def)

lemma writes_as_read [simp]:
  "writes_volunteer (as_read_volunteer v)" "writes_event (as_read_event e)"
  "writes_registration (as_read_registration g)" "writes_feedback (as_read_feedback f)"
  by (simp_all add: writes_volunteer_def as_read_volunteer_def writes_event_def
      as_read_event_def writes_registration_def as_read_registration_def writes_feedback_def
      as_read_feedback_def)

lemma vol_email_as_read [simp]: "vol_email (as_read_volunteer v) = Json (vol_email v)"
  by (simp add: as_read_volunteer_def)


section \<open>The outcomes of the handlers\<close>

lemma vol_id_new [simp]: "vol_id (new_Volunteer a n e c s) = uuidv4 a"
  by (simp add: new_Volunteer_def)

lemma vol_email_new [simp]: "vol_email (new_Volunteer a n e c s) = e"
  by (simp add: new_Volunteer_def)

lemma reg_id_new [simp]: "reg_id (new_Registration a e v s) = uuidv4 a"
  by (simp add: new_Registration_def)

lemma fb_id_new [simp]: "fb_id (new_Feedback a v e f r) = uuidv4 a"
  by (simp add: new_Feedback_def)

lemma ev_id_new [simp]: "ev_id (new_Event a t d dt l oid) = uuidv4 a"
  by (simp add: new_Event_def)

lemma post_volunteers_created:
  assumes "body_prop b ''name'' = JStr n" "n \<noteq> []"
    and "truthy (body_prop b ''email'')"
    and "body_prop b ''contact'' = JStr c" "c \<noteq> []"
    and "body_prop b ''skills'' = JArr sk"
    and "emailRegex_test rt (body_prop b ''email'') = Returns True"
    and "StableBTreeMap_values (read_volunteer rt) (volunteersStorage st) = Returns vs"
    and "find (\<lambda>volunteer. strict_eq_read (vol_email volunteer) (body_prop b ''email'')) vs = None"
  shows "post_volunteers rt a b st =
           (Response 201 (VolunteerBody ''Volunteer created successfully''
              (new_Volunteer a (JStr n) (body_prop b ''email'') (JStr c) (JArr sk))),
            st\<lparr>volunteersStorage :=
                 StableBTreeMap_insert (uuidv4 a)
                   (new_Volunteer a (JStr n) (body_prop b ''email'') (JStr c) (JArr sk))
                   (volunteersStorage st)\<rparr>)"
  using assms by (simp add: post_volunteers_def Let_def)



lemma post_volunteers_cases:
  "post_volunteers rt a b st = (resp, st') \<Longrightarrow>
     (status_of resp \<noteq> 201 \<and> st' = st) \<or>
     (resp = Response 201 (VolunteerBody ''Volunteer created successfully''
                  (new_Volunteer a (body_prop b ''name'') (body_prop b ''email'')
                     (body_prop b ''contact'') (body_prop b ''skills''))) \<and>
      st' = st\<lparr>volunteersStorage :=
                   StableBTreeMap_insert (uuidv4 a)
                     (new_Volunteer a (body_prop b ''name'') (body_prop b ''email'')
                        (body_prop b ''contact'') (body_prop b ''skills''))
                     (volunteersStorage st)\<rparr>)"
  by (auto simp: post_volunteers_def Let_def split: if_splits option.splits outcome.splits bool.splits)

lemma post_events_cases:
  "post_events rt a b st = (resp, st') \<Longrightarrow>
     (status_of resp \<noteq> 201 \<and> st' = st) \<or>
     (\<exists>d. new_Date rt (body_prop b ''dateTime'') = Returns d \<and>
      resp = Response 201 (EventBody ''Event created successfully''
                  (new_Event a (body_prop b ''title'') (body_prop b ''description'')
                     d (body_prop b ''location'') (body_prop b ''organizerId''))) \<and>
      st' = st\<lparr>eventsStorage :=
                   StableBTreeMap_insert (uuidv4 a)
                     (new_Event a (body_prop b ''title'') (body_prop b ''description'')
                        d (body_prop b ''location'') (body_prop b ''organizerId''))
                     (eventsStorage st)\<rparr>)"
  by (auto simp: post_events_def Let_def split: if_splits outcome.splits)

lemma post_registrations_cases:
  "post_registrations a b st = (resp, st') \<Longrightarrow>
     (status_of resp \<noteq> 201 \<and> st' = st) \<or>
     (resp = Response 201 (RegistrationBody ''Registration created successfully''
                  (new_Registration a (body_prop b ''eventId'') (body_prop b ''volunteerId'')
                     (body_prop b ''status''))) \<and>
      st' = st\<lparr>registrationsStorage :=
                   StableBTreeMap_insert (uuidv4 a)
                     (new_Registration a (body_prop b ''eventId'') (body_prop b ''volunteerId'')
                        (body_prop b ''status''))
                     (registrationsStorage st)\<rparr>)"
  by (auto simp: post_registrations_def Let_def split: if_splits)

lemma post_feedbacks_cases:
  "post_feedbacks a b st = (resp, st') \<Longrightarrow>
     (status_of resp \<noteq> 201 \<and> st' = st) \<or>
     (resp = Response 201 (FeedbackBody ''Feedback created successfully''
                  (new_Feedback a (body_prop b ''volunteerId'') (body_prop b ''eventId'')
                     (body_prop b ''feedback'') (body_prop b ''rating''))) \<and>
      st' = st\<lparr>feedbacksStorage :=
                   StableBTreeMap_insert (uuidv4 a)
                     (new_Feedback a (body_prop b ''volunteerId'') (body_prop b ''eventId'')
                        (body_prop b ''feedback'') (body_prop b ''rating''))
                     (feedbacksStorage st)\<rparr>)"
  by (auto simp: post_feedbacks_def Let_def split: if_splits)

lemma get_volunteer_by_id_status:
  "get_volunteer_by_id rt idv st = (resp, st') \<Longrightarrow> status_of resp \<noteq> 201 \<and> st' = st"
  by (auto simp: get_volunteer_by_id_def split: jsval.splits option.splits outcome.splits if_splits)

lemma get_volunteer_by_id_frame: "snd (get_volunteer_by_id rt idv st) = st"
  by (cases "get_volunteer_by_id rt idv st") (auto dest: get_volunteer_by_id_status)

lemma list_status:
  "get_volunteers rt st = (resp, st') \<Longrightarrow> status_of resp \<noteq> 201 \<and> st' = st"
  "get_events rt st = (resp, st') \<Longrightarrow> status_of resp \<noteq> 201 \<and> st' = st"
  "get_registrations rt st = (resp, st') \<Longrightarrow> status_of resp \<noteq> 201 \<and> st' = st"
  "get_feedbacks rt st = (resp, st') \<Longrightarrow> status_of resp \<noteq> 201 \<and> st' = st"
  by (auto simp: get_volunteers_def get_events_def get_registrations_def get_feedbacks_def
      split: outcome.splits if_splits)

section \<open>What a request changes and what it reads\<close>

lemma handle_unchanged_or_created:
  assumes "handle rt a r st = (resp, st')"
  shows "(status_of resp \<noteq> 201 \<and> st' = st) \<or>
         (status_of resp = 201 \<and> same_off (collection_of r) st st' \<and>
          (uuidv4 a \<notin> set (keys_of (collection_of r) st) \<longrightarrow>
             (\<exists>xs ys. keys_of (collection_of r) st = xs @ ys \<and>
                      keys_of (collection_of r) st' = xs @ [uuidv4 a] @ ys)))"
proof (cases r)
  case (PostVolunteers b)
  with assms have "post_volunteers rt a b st = (resp, st')" by simp
  from post_volunteers_cases[OF this] show ?thesis
  proof
    assume "status_of resp \<noteq> 201 \<and> st' = st"
    then show ?thesis by simp
  next
    assume "resp = Response 201 (VolunteerBody ''Volunteer created successfully''
                  (new_Volunteer a (body_prop b ''name'') (body_prop b ''email'')
                     (body_prop b ''contact'') (body_prop b ''skills''))) \<and>
      st' = st\<lparr>volunteersStorage :=
                   StableBTreeMap_insert (uuidv4 a)
                     (new_Volunteer a (body_prop b ''name'') (body_prop b ''email'')
                        (body_prop b ''contact'') (body_prop b ''skills''))
                     (volunteersStorage st)\<rparr>"
    then show ?thesis
      using PostVolunteers by (simp add: same_off_def keys_insert_fresh)
  qed
next
  case (GetVolunteerById idv)
  with assms show ?thesis by (simp add: get_volunteer_by_id_status)
next
  case GetVolunteers
  with assms show ?thesis by (auto dest: list_status)
next
  case (PostEvents b)
  with assms have "post_events rt a b st = (resp, st')" by simp
  from post_events_cases[OF this] show ?thesis
  proof
    assume "status_of resp \<noteq> 201 \<and> st' = st"
    then show ?thesis by simp
  next
    assume "\<exists>d. new_Date rt (body_prop b ''dateTime'') = Returns d \<and>
      resp = Response 201 (EventBody ''Event created successfully''
                  (new_Event a (body_prop b ''title'') (body_prop b ''description'')
                     d (body_prop b ''location'') (body_prop b ''organizerId''))) \<and>
      st' = st\<lparr>eventsStorage :=
                   StableBTreeMap_insert (uuidv4 a)
                     (new_Event a (body_prop b ''title'') (body_prop b ''description'')
                        d (body_prop b ''location'') (body_prop b ''organizerId''))
                     (eventsStorage st)\<rparr>"
    then obtain d where "resp = Response 201 (EventBody ''Event created successfully''
                  (new_Event a (body_prop b ''title'') (body_prop b ''description'')
                     d (body_prop b ''location'') (body_prop b ''organizerId'')))"
      "st' = st\<lparr>eventsStorage :=
                   StableBTreeMap_insert (uuidv4 a)
                     (new_Event a (body_prop b ''title'') (body_prop b ''description'')
                        d (body_prop b ''location'') (body_prop b ''organizerId''))
                     (eventsStorage st)\<rparr>" by blast
    then show ?thesis
      using PostEvents by (simp add: same_off_def keys_insert_fresh)
  qed
next
  case GetEvents
  with assms show ?thesis by (auto dest: list_status)
next
  case (PostRegistrations b)
  with assms have "post_registrations a b st = (resp, st')" by simp
  from post_registrations_cases[OF this] show ?thesis
  proof
    assume "status_of resp \<noteq> 201 \<and> st' = st"
    then show ?thesis by simp
  next
    assume "resp = Response 201 (RegistrationBody ''Registration created successfully''
                  (new_Registration a (body_prop b ''eventId'') (body_prop b ''volunteerId'')
                     (body_prop b ''status''))) \<and>
      st' = st\<lparr>registrationsStorage :=
                   StableBTreeMap_insert (uuidv4 a)
                     (new_Registration a (body_prop b ''eventId'') (body_prop b ''volunteerId'')
                        (body_prop b ''status''))
                     (registrationsStorage st)\<rparr>"
    then show ?thesis
      using PostRegistrations by (simp add: same_off_def keys_insert_fresh)
  qed
next
  case GetRegistrations
  with assms show ?thesis by (auto dest: list_status)
next
  case (PostFeedbacks b)
  with assms have "post_feedbacks a b st = (resp, st')" by simp
  from post_feedbacks_cases[OF this] show ?thesis
  proof
    assume "status_of resp \<noteq> 201 \<and> st' = st"
    then show ?thesis by simp
  next
    assume "resp = Response 201 (FeedbackBody ''Feedback created successfully''
                  (new_Feedback a (body_prop b ''volunteerId'') (body_prop b ''eventId'')
                     (body_prop b ''feedback'') (body_prop b ''rating''))) \<and>
      st' = st\<lparr>feedbacksStorage :=
                   StableBTreeMap_insert (uuidv4 a)
                     (new_Feedback a (body_prop b ''volunteerId'') (body_prop b ''eventId'')
                        (body_prop b ''feedback'') (body_prop b ''rating''))
                     (feedbacksStorage st)\<rparr>"
    then show ?thesis
      using PostFeedbacks by (simp add: same_off_def keys_insert_fresh)
  qed
next
  case GetFeedbacks
  with assms show ?thesis by (auto dest: list_status)
qed

lemma handle_reads_own_collection:
  assumes "same_on (collection_of r) st st2"
  shows "fst (handle rt a r st2) = fst (handle rt a r st)"
  using assms
  by (cases r)
     (auto simp: post_volunteers_def get_volunteer_by_id_def get_volunteers_def
        post_events_def get_events_def post_registrations_def get_registrations_def
        post_feedbacks_def get_feedbacks_def Let_def StableBTreeMap_get_def
        split: option.splits jsval.splits outcome.splits bool.splits)

lemma handle_writes_own_collection:
  assumes "same_on (collection_of r) st st2"
  shows "same_on (collection_of r) (snd (handle rt a r st2)) (snd (handle rt a r st))"
  using assms
  by (cases r)
     (auto simp: post_volunteers_def get_volunteer_by_id_def get_volunteers_def
        post_events_def get_events_def post_registrations_def get_registrations_def
        post_feedbacks_def get_feedbacks_def Let_def StableBTreeMap_get_def
        split: option.splits jsval.splits outcome.splits bool.splits)

lemma handle_get_other:
  assumes "k \<noteq> uuidv4 a"
  shows "map_of (volunteersStorage (snd (handle rt a r st))) k =
           map_of (volunteersStorage st) k"
    and "map_of (eventsStorage (snd (handle rt a r st))) k =
           map_of (eventsStorage st) k"
    and "map_of (registrationsStorage (snd (handle rt a r st))) k =
           map_of (registrationsStorage st) k"
    and "map_of (feedbacksStorage (snd (handle rt a r st))) k =
           map_of (feedbacksStorage st) k"
proof -
  obtain resp st' where h: "handle rt a r st = (resp, st')" by (cases "handle rt a r st")
  have "map_of (volunteersStorage st') k = map_of (volunteersStorage st) k \<and>
        map_of (eventsStorage st') k = map_of (eventsStorage st) k \<and>
        map_of (registrationsStorage st') k = map_of (registrationsStorage st) k \<and>
        map_of (feedbacksStorage st') k = map_of (feedbacksStorage st) k"
  proof (cases r)
    case (PostVolunteers b)
    with h have "post_volunteers rt a b st = (resp, st')" by simp
    from post_volunteers_cases[OF this] show ?thesis using assms by (auto simp: map_of_insert)
  next
    case (GetVolunteerById idv)
    with h have "get_volunteer_by_id rt idv st = (resp, st')" by simp
    from get_volunteer_by_id_status[OF this] show ?thesis by simp
  next
    case GetVolunteers
    with h show ?thesis by (auto dest: list_status)
  next
    case (PostEvents b)
    with h have "post_events rt a b st = (resp, st')" by simp
    from post_events_cases[OF this] show ?thesis using assms by (auto simp: map_of_insert)
  next
    case GetEvents
    with h show ?thesis by (auto dest: list_status)
  next
    case (PostRegistrations b)
    with h have "post_registrations a b st = (resp, st')" by simp
    from post_registrations_cases[OF this] show ?thesis using assms by (auto simp: map_of_insert)
  next
    case GetRegistrations
    with h show ?thesis by (auto dest: list_status)
  next
    case (PostFeedbacks b)
    with h have "post_feedbacks a b st = (resp, st')" by simp
    from post_feedbacks_cases[OF this] show ?thesis using assms by (auto simp: map_of_insert)
  next
    case GetFeedbacks
    with h show ?thesis by (auto dest: list_status)
  qed
  with h show
    "map_of (volunteersStorage (snd (handle rt a r st))) k =
           map_of (volunteersStorage st) k"
    "map_of (eventsStorage (snd (handle rt a r st))) k =
           map_of (eventsStorage st) k"
    "map_of (registrationsStorage (snd (handle rt a r st))) k =
           map_of (registrationsStorage st) k"
    "map_of (feedbacksStorage (snd (handle rt a r st))) k =
           map_of (feedbacksStorage st) k"
    by simp_all
qed

section \<open>Creating an event, a registration, a feedback\<close>


lemma post_events_throws:
  assumes "body_prop b ''title'' = JStr t" "t \<noteq> []"
    and "body_prop b ''description'' = JStr d" "d \<noteq> []"
    and "truthy (body_prop b ''dateTime'')"
    and "body_prop b ''location'' = JStr l" "l \<noteq> []"
    and "body_prop b ''organizerId'' = JStr oid" "oid \<noteq> []"
    and "new_Date rt (body_prop b ''dateTime'') = Throws"
  shows "post_events rt a b st = (Response 500 (ErrorBody event_create_error), st)"
  using assms by (simp add: post_events_def)

lemma post_registrations_created:
  assumes "body_prop b ''eventId'' = JStr e" "e \<noteq> []"
    and "body_prop b ''volunteerId'' = JStr v" "v \<noteq> []"
    and "body_prop b ''status'' = JStr s" "s \<noteq> []"
  shows "post_registrations a b st =
           (Response 201 (RegistrationBody ''Registration created successfully''
              (new_Registration a (JStr e) (JStr v) (JStr s))),
            st\<lparr>registrationsStorage :=
                 StableBTreeMap_insert (uuidv4 a) (new_Registration a (JStr e) (JStr v) (JStr s))
                   (registrationsStorage st)\<rparr>)"
  using assms by (simp add: post_registrations_def Let_def)

lemma post_feedbacks_created:
  assumes "body_prop b ''volunteerId'' = JStr v" "v \<noteq> []"
    and "body_prop b ''eventId'' = JStr e" "e \<noteq> []"
    and "body_prop b ''feedback'' = JStr f" "f \<noteq> []"
    and "body_prop b ''rating'' = JNum n" "n \<noteq> Finite 0"
  shows "post_feedbacks a b st =
           (Response 201 (FeedbackBody ''Feedback created successfully''
              (new_Feedback a (JStr v) (JStr e) (JStr f) (JNum n))),
            st\<lparr>feedbacksStorage :=
                 StableBTreeMap_insert (uuidv4 a) (new_Feedback a (JStr v) (JStr e) (JStr f) (JNum n))
                   (feedbacksStorage st)\<rparr>)"
  using assms by (simp add: post_feedbacks_def Let_def)

lemma post_feedbacks_falsy_rating:
  "\<not> truthy (body_prop b ''rating'') \<Longrightarrow>
   post_feedbacks a b st = (Response 400 (ErrorBody feedback_input_error), st)"
  by (simp add: post_feedbacks_def)

section \<open>Records that are read back as they were stored: listing and lookup\<close>





lemma values_read_member:
  assumes "StableBTreeMap_values reader m = Returns vs" and "kv \<in> set m"
  shows "\<exists>w \<in> set vs. reader (snd kv) = Returns w"
proof -
  have "map (\<lambda>kv. reader (snd kv)) m = map Returns vs"
    using assms(1) unfolding StableBTreeMap_values_def by (rule collect_Throws_or_Returns)
  moreover have "reader (snd kv) \<in> set (map (\<lambda>kv. reader (snd kv)) m)"
    using assms(2) by simp
  ultimately have "reader (snd kv) \<in> set (map Returns vs)" by simp
  then show ?thesis by auto
qed

lemma read_volunteer_email:
  "read_volunteer rt v = Returns w \<Longrightarrow> read_back rt (vol_email v) = Returns (vol_email w)"
  by (auto simp: read_volunteer_def split: outcome.splits list.splits
      dest!: collect_Throws_or_Returns)









section \<open>Creating a volunteer\<close>




lemma post_volunteers_fail_fast:
  "(\<not> truthy (body_prop b ''name'') \<or> typeof (body_prop b ''name'') \<noteq> ''string'' \<or>
    \<not> truthy (body_prop b ''email'') \<or>
    \<not> truthy (body_prop b ''contact'') \<or> typeof (body_prop b ''contact'') \<noteq> ''string'' \<or>
    \<not> truthy (body_prop b ''skills'') \<or> \<not> isArray (body_prop b ''skills'') \<longrightarrow>
      post_volunteers rt a b st = (Response 400 (ErrorBody volunteer_input_error), st)) \<and>
   (status_of (fst (post_volunteers rt a b st)) \<noteq> 201 \<longrightarrow> snd (post_volunteers rt a b st) = st) \<and>
   (fst (post_volunteers rt a b st) = Response 400 (StatusErrorBody 400 email_conflict_error) \<longrightarrow>
      emailRegex_test rt (body_prop b ''email'') = Returns True) \<and>
   volunteer_input_error \<noteq> email_format_error \<and>
   volunteer_input_error \<noteq> email_conflict_error \<and>
   email_format_error \<noteq> email_conflict_error"
  by (auto simp: post_volunteers_def Let_def volunteer_input_error_def email_format_error_def
      email_conflict_error_def split: option.splits outcome.splits bool.splits)

section \<open>The date of an event\<close>

text \<open>
  \<open>new Date\<close> throws only when the conversion of its argument to a string does; for a
  text it returns what the date parser makes of the text.
\<close>

lemma new_Date_Throws: "new_Date rt v = Throws \<Longrightarrow> to_string rt v = Throws"
  by (cases "(rt, v)" rule: new_Date.cases) (auto split: outcome.splits if_splits)

lemma new_Date_text:
  "new_Date rt (JStr s) =
     Returns (case Date_parse rt s of None \<Rightarrow> InvalidDate | Some t \<Rightarrow> TimeClip (of_int t))"
  by simp

section \<open>Records stay where they were stored\<close>



section \<open>The text emails of the stored volunteers\<close>

text \<open>
  Among the emails that are plain text the duplicate check does its work: in every state
  that a run of requests reaches from the empty store, the plain text emails of the stored
  volunteers are distinct.  A record is inserted only after the whole collection was read
  back, so a stored plain text email was compared with the one of the request.
\<close>

lemma text_emails_Nil [simp]: "text_emails [] = []"
  by (simp add: text_emails_def)

lemma text_emails_Cons:
  "text_emails (v # vs) =
     (case vol_email v of JStr e \<Rightarrow> (if plain (JStr e) then [e] else []) | _ \<Rightarrow> []) @
     text_emails vs"
  by (simp add: text_emails_def)

lemma set_text_emails:
  "set (text_emails vs) = {e. plain (JStr e) \<and> JStr e \<in> vol_email ` set vs}"
  by (induction vs) (auto simp: text_emails_Cons simp del: plain.simps split: jsval.splits)

lemma text_emails_insert_distinct:
  assumes "distinct (text_emails (map snd m))"
    and "\<And>e. vol_email v = JStr e \<Longrightarrow> plain (JStr e) \<Longrightarrow> e \<notin> set (text_emails (map snd m))"
  shows "distinct (text_emails (map snd (StableBTreeMap_insert k v m)))"
  using assms
proof (induction m)
  case Nil
  then show ?case by (simp add: text_emails_Cons del: plain.simps split: jsval.splits)
next
  case (Cons p m)
  obtain k' v' where p: "p = (k', v')" by (cases p)
  have d: "distinct (text_emails (map snd m))"
    using Cons.prems(1) by (simp add: text_emails_Cons)
  have new: "\<And>e. vol_email v = JStr e \<Longrightarrow> plain (JStr e) \<Longrightarrow> e \<notin> set (text_emails (map snd m))"
    using Cons.prems(2) by (simp add: text_emails_Cons)
  have newp: "\<And>e. vol_email v = JStr e \<Longrightarrow> plain (JStr e) \<Longrightarrow> vol_email v' \<noteq> JStr e"
    using Cons.prems(2) p by (fastforce simp: text_emails_Cons simp del: plain.simps)
  consider "k = k'" | "k \<noteq> k'" "k < k'" | "k \<noteq> k'" "\<not> k < k'" by blast
  then show ?case
  proof cases
    case 1
    then show ?thesis
      using d new p by (auto simp: text_emails_Cons simp del: plain.simps split: jsval.splits)
  next
    case 2
    then show ?thesis
      using Cons.prems p
      by (auto simp: text_emails_Cons simp del: plain.simps split: jsval.splits)
  next
    case 3
    have IH: "distinct (text_emails (map snd (StableBTreeMap_insert k v m)))"
      using Cons.IH[OF d new] .
    have sub: "set (StableBTreeMap_insert k v m) \<subseteq> insert (k, v) (set m)"
      by (rule insert_subset)
    have "e \<notin> set (text_emails (map snd (StableBTreeMap_insert k v m)))"
      if e: "vol_email v' = JStr e" and pe: "plain (JStr e)" for e
    proof
      assume "e \<in> set (text_emails (map snd (StableBTreeMap_insert k v m)))"
      then obtain kw where w: "kw \<in> set (StableBTreeMap_insert k v m)"
        "vol_email (snd kw) = JStr e" by (force simp: set_text_emails simp del: plain.simps)
      from w(1) sub have "kw = (k, v) \<or> kw \<in> set m" by auto
      then show False
      proof
        assume "kw = (k, v)"
        with w(2) newp e pe show False by auto
      next
        assume "kw \<in> set m"
        with w(2) pe have "e \<in> set (text_emails (map snd m))"
          by (force simp: set_text_emails simp del: plain.simps)
        with Cons.prems(1) p e pe show False by (simp add: text_emails_Cons del: plain.simps)
      qed
    qed
    with IH 3 p show ?thesis
      by (auto simp: text_emails_Cons simp del: plain.simps split: jsval.splits)
  qed
qed

lemma find_None_new_email:
  assumes "StableBTreeMap_values (read_volunteer rt) m = Returns vs"
    and "find (\<lambda>w. strict_eq_read (vol_email w) (JStr e)) vs = None"
    and "plain (JStr e)"
  shows "e \<notin> set (text_emails (map snd m))"
proof
  assume "e \<in> set (text_emails (map snd m))"
  then obtain kv where kv: "kv \<in> set m" "vol_email (snd kv) = JStr e"
    by (force simp: set_text_emails simp del: plain.simps)
  from values_read_member[OF assms(1) kv(1)]
  obtain w where w: "w \<in> set vs" "read_volunteer rt (snd kv) = Returns w" by blast
  from read_volunteer_email[OF w(2)] kv(2) assms(3)
  have "vol_email w = Json (JStr e)" by (simp add: read_back_plain del: plain.simps)
  then have "strict_eq_read (vol_email w) (JStr e)" by simp
  with w(1) assms(2) show False by (auto simp: find_None_iff)
qed

lemma post_volunteers_text_emails:
  assumes "distinct (text_emails (map snd (volunteersStorage st)))"
  shows "distinct (text_emails (map snd (volunteersStorage (snd (post_volunteers rt a b st)))))"
proof -
  let ?v = "new_Volunteer a (body_prop b ''name'') (body_prop b ''email'')
              (body_prop b ''contact'') (body_prop b ''skills'')"
  obtain resp st' where p: "post_volunteers rt a b st = (resp, st')"
    by (cases "post_volunteers rt a b st")
  from post_volunteers_cases[OF p] show ?thesis
  proof
    assume "status_of resp \<noteq> 201 \<and> st' = st"
    then show ?thesis using assms p by simp
  next
    assume c: "resp = Response 201 (VolunteerBody ''Volunteer created successfully'' ?v) \<and>
      st' = st\<lparr>volunteersStorage :=
                   StableBTreeMap_insert (uuidv4 a) ?v (volunteersStorage st)\<rparr>"
    with p have "fst (post_volunteers rt a b st) =
        Response 201 (VolunteerBody ''Volunteer created successfully'' ?v)" by simp
    then obtain vs where vs: "StableBTreeMap_values (read_volunteer rt) (volunteersStorage st) =
          Returns vs"
        "find (\<lambda>volunteer. strict_eq_read (vol_email volunteer) (body_prop b ''email'')) vs = None"
      by (auto simp: post_volunteers_def Let_def
          split: if_splits outcome.splits bool.splits option.splits)
    have "distinct (text_emails (map snd
            (StableBTreeMap_insert (uuidv4 a) ?v (volunteersStorage st))))"
    proof (rule text_emails_insert_distinct[OF assms])
      fix e assume "vol_email ?v = JStr e" and pe: "plain (JStr e)"
      then have "body_prop b ''email'' = JStr e" by simp
      with vs pe show "e \<notin> set (text_emails (map snd (volunteersStorage st)))"
        using find_None_new_email[of rt "volunteersStorage st" vs e] by simp
    qed
    then show ?thesis using c p by simp
  qed
qed

lemma handle_text_emails:
  assumes "distinct (text_emails (map snd (volunteersStorage st)))"
  shows "distinct (text_emails (map snd (volunteersStorage (snd (handle rt a r st)))))"
proof (cases "collection_of r = Volunteers")
  case True
  then show ?thesis
  proof (cases r)
    case (PostVolunteers b)
    then show ?thesis using post_volunteers_text_emails[OF assms] by simp
  next
    case (GetVolunteerById idv)
    then show ?thesis using assms by (simp add: get_volunteer_by_id_frame)
  next
    case GetVolunteers
    obtain resp st' where "get_volunteers rt st = (resp, st')" by (cases "get_volunteers rt st")
    from list_status(1)[OF this] this show ?thesis using assms GetVolunteers by simp
  qed simp_all
next
  case False
  obtain resp st' where h: "handle rt a r st = (resp, st')" by (cases "handle rt a r st")
  from handle_unchanged_or_created[OF h] have "volunteersStorage st' = volunteersStorage st"
    using False by (cases "collection_of r") (auto simp: same_off_def)
  then show ?thesis using assms h by simp
qed

lemma run_text_emails:
  "distinct (text_emails (map snd (volunteersStorage st))) \<Longrightarrow>
   distinct (text_emails (map snd (volunteersStorage (run rt steps st))))"
proof (induction steps arbitrary: st)
  case Nil
  then show ?case by simp
next
  case (Cons p steps)
  obtain a r where "p = (a, r)" by (cases p)
  then show ?case using Cons.IH[OF handle_text_emails[OF Cons.prems]] by simp
qed

lemma text_emails_unique_reachable:
  "distinct (text_emails (map snd (volunteersStorage (run rt steps init_state))))"
  by (rule run_text_emails) (simp add: init_state_def)

section \<open>The examples\<close>

lemma body_prop_volunteer_body:
  "body_prop (volunteer_body e) ''name'' = JStr (utf16 ''Ann'')"
  "body_prop (volunteer_body e) ''email'' = e"
  "body_prop (volunteer_body e) ''contact'' = JStr (utf16 ''555'')"
  "body_prop (volunteer_body e) ''skills'' = JArr [JStr (utf16 ''first-aid'')]"
  by (simp_all add: body_prop_def volunteer_body_def utf16_def)

lemma utf16_nonempty: "utf16 (x # xs) \<noteq> []"
  by (simp add: utf16_def)

lemma match_ab: "regex_match emailRegex (utf16 ''a@b.co'')"
  by (simp add: emailRegex_def utf16_def is_space_def)




lemma body_prop_event_body:
  "body_prop (event_body dt) ''title'' = JStr (utf16 ''Cleanup'')"
  "body_prop (event_body dt) ''description'' = JStr (utf16 ''Beach'')"
  "body_prop (event_body dt) ''dateTime'' = dt"
  "body_prop (event_body dt) ''location'' = JStr (utf16 ''Pier'')"
  "body_prop (event_body dt) ''organizerId'' = JStr (utf16 ''v1'')"
  by (simp_all add: body_prop_def event_body_def utf16_def)

lemma body_prop_registration_body:
  "body_prop (registration_body s) ''eventId'' = JStr (utf16 ''e1'')"
  "body_prop (registration_body s) ''volunteerId'' = JStr (utf16 ''v1'')"
  "body_prop (registration_body s) ''status'' = s"
  by (simp_all add: body_prop_def registration_body_def utf16_def)

lemma body_prop_feedback_body:
  "body_prop (feedback_body r) ''volunteerId'' = JStr (utf16 ''v1'')"
  "body_prop (feedback_body r) ''eventId'' = JStr (utf16 ''e1'')"
  "body_prop (feedback_body r) ''feedback'' = JStr (utf16 ''Great'')"
  "body_prop (feedback_body r) ''rating'' = (case r of None \<Rightarrow> JUndefined | Some v \<Rightarrow> v)"
  by (simp_all add: body_prop_def feedback_body_def utf16_def split: option.splits)

lemma plain_examples:
  "plain (JStr (utf16 ''Ann''))" "plain (JStr (utf16 ''555''))"
  "plain (JArr [JStr (utf16 ''first-aid'')])" "plain (JStr (utf16 ''a@b.co''))"
  "plain (JArr [JStr (utf16 ''a@b.co'')])" "plain (JStr (utf16 ''ann@x.com''))"
  "plain (JStr (utf16 ''Ann@x.com''))" "plain (JStr (utf16 ''Bob''))"
  "plain (JStr (utf16 ''556''))" "plain (JStr (utf16 ''bob@x.com''))"
  "plain (JStr (utf16 ''Cleanup''))" "plain (JStr (utf16 ''Beach''))"
  "plain (JStr (utf16 ''Pier''))" "plain (JStr (utf16 ''v1''))"
  by (simp_all add: utf16_def is_surrogate_def)

lemma plain_ann:
  "plain e \<Longrightarrow> plain_volunteer (ann u t e)"
  by (simp add: plain_volunteer_def ann_def new_Volunteer_def utf16_def is_surrogate_def)

lemma array_email_passes:
  "emailRegex_test example_runtime (JArr [JStr (utf16 ''a@b.co'')]) = Returns True"
  using match_ab by (simp add: emailRegex_test_def)

lemma true_email_fails:
  "emailRegex_test example_runtime (JBool True) = Returns False"
  by (simp add: emailRegex_test_def emailRegex_def utf16_def is_surrogate_def is_space_def)

lemma example_post_array_email:
  assumes "list_all plain_volunteer (map snd (volunteersStorage st))"
  shows "post_volunteers example_runtime (amb u t)
           (volunteer_body (JArr [JStr (utf16 ''a@b.co'')])) st =
     (Response 201 (VolunteerBody ''Volunteer created successfully''
        (ann u t (JArr [JStr (utf16 ''a@b.co'')]))),
      st\<lparr>volunteersStorage :=
        StableBTreeMap_insert (utf16 u) (ann u t (JArr [JStr (utf16 ''a@b.co'')]))
          (volunteersStorage st)\<rparr>)"
proof -
  let ?b = "volunteer_body (JArr [JStr (utf16 ''a@b.co'')])"
  let ?vs = "map (\<lambda>kv. as_read_volunteer (snd kv)) (volunteersStorage st)"
  have v: "StableBTreeMap_values (read_volunteer example_runtime) (volunteersStorage st) =
             Returns ?vs"
    using assms by (rule values_all_read) (rule read_volunteer_plain)
  have f: "find (\<lambda>volunteer. strict_eq_read (vol_email volunteer) (body_prop ?b ''email'')) ?vs
             = None"
    by (simp add: find_None_iff body_prop_volunteer_body strict_eq_read_JArr)
  have "post_volunteers example_runtime (amb u t) ?b st =
     (Response 201 (VolunteerBody ''Volunteer created successfully''
        (new_Volunteer (amb u t) (JStr (utf16 ''Ann'')) (body_prop ?b ''email'')
           (JStr (utf16 ''555'')) (JArr [JStr (utf16 ''first-aid'')]))),
      st\<lparr>volunteersStorage :=
        StableBTreeMap_insert (uuidv4 (amb u t))
          (new_Volunteer (amb u t) (JStr (utf16 ''Ann'')) (body_prop ?b ''email'')
             (JStr (utf16 ''555'')) (JArr [JStr (utf16 ''first-aid'')]))
          (volunteersStorage st)\<rparr>)"
    by (rule post_volunteers_created[OF _ _ _ _ _ _ _ v f])
       (simp_all add: body_prop_volunteer_body utf16_nonempty array_email_passes)
  then show ?thesis
    by (simp add: body_prop_volunteer_body ann_def amb_def)
qed


lemma example_post_registration:
  "handle example_runtime (amb ''r1'' 1000)
       (PostRegistrations (registration_body (JStr (utf16 ''Registered'')))) st =
     (Response 201 (RegistrationBody ''Registration created successfully''
        (new_Registration (amb ''r1'' 1000) (JStr (utf16 ''e1'')) (JStr (utf16 ''v1''))
           (JStr (utf16 ''Registered'')))),
      st\<lparr>registrationsStorage := StableBTreeMap_insert (utf16 ''r1'')
        (new_Registration (amb ''r1'' 1000) (JStr (utf16 ''e1'')) (JStr (utf16 ''v1''))
           (JStr (utf16 ''Registered''))) (registrationsStorage st)\<rparr>)"
  by (simp add: post_registrations_def body_prop_registration_body utf16_nonempty Let_def amb_def)

lemma example_post_feedback_missing:
  "handle example_runtime a (PostFeedbacks (feedback_body None)) st =
     (Response 400 (ErrorBody feedback_input_error), st)"
  by (simp add: post_feedbacks_def body_prop_feedback_body)


text \<open>
  An object with a \<open>toString\<close> of its own is truthy and cannot be converted to a string:
  \<open>new Date\<close> throws, and the \<open>catch\<close> of the handler answers 500.
\<close>

lemma example_post_event_throws:
  "handle rt a (PostEvents (event_body (JObj [(utf16 ''toString'', JNum (Finite 1))]))) st =
     (Response 500 (ErrorBody event_create_error), st)"
  by (simp add: post_events_def body_prop_event_body utf16_nonempty)



text \<open>
  A volunteer whose skills hold the marker of a Principal that is none cannot be read
  back.  With that record stored, \<open>values\<close> throws: the creation of a volunteer, which
  calls it outside the \<open>try\<close> block, is answered 500 by Express, and the listing by its
  \<open>catch\<close>.
\<close>

lemma read_bob_principal:
  "read_volunteer example_runtime
     (new_Volunteer (amb u t) (JStr (utf16 ''Bob'')) (JStr (utf16 ''bob@x.com''))
        (JStr (utf16 ''556'')) principal_skills) = Throws"
proof -
  have np: "\<not> plain principal_skills" by (simp add: principal_skills_def)
  have ne: "principal_skills \<noteq> bigint_skills"
    by (simp add: principal_skills_def bigint_skills_def utf16_def)
  have r: "read_back example_runtime principal_skills = Throws"
    using np ne by (simp add: read_back_def example_runtime_def)
  show ?thesis
    using plain_examples(8,9,10)
    by (simp add: read_volunteer_def new_Volunteer_def r read_back_plain amb_def
        del: plain.simps)
qed

lemma example_principal_store:
  "post_volunteers example_runtime a (volunteer_body (JStr (utf16 ''a@b.co'')))
     (init_state\<lparr>volunteersStorage :=
        [(utf16 ''u1'', new_Volunteer (amb ''u1'' 1000) (JStr (utf16 ''Bob''))
            (JStr (utf16 ''bob@x.com'')) (JStr (utf16 ''556'')) principal_skills)]\<rparr>) =
   (Response 500 ExpressErrorPage,
    init_state\<lparr>volunteersStorage :=
        [(utf16 ''u1'', new_Volunteer (amb ''u1'' 1000) (JStr (utf16 ''Bob''))
            (JStr (utf16 ''bob@x.com'')) (JStr (utf16 ''556'')) principal_skills)]\<rparr>)"
  "fst (get_volunteers example_runtime
     (init_state\<lparr>volunteersStorage :=
        [(utf16 ''u1'', new_Volunteer (amb ''u1'' 1000) (JStr (utf16 ''Bob''))
            (JStr (utf16 ''bob@x.com'')) (JStr (utf16 ''556'')) principal_skills)]\<rparr>)) =
   Response 500 (ErrorBody ''Server error occurred while retrieving volunteers.'')"
  using match_ab
  by (simp_all add: post_volunteers_def body_prop_volunteer_body utf16_nonempty
      emailRegex_test_def StableBTreeMap_values_def read_bob_principal get_volunteers_def)

section \<open>The claims\<close>

text \<open>
  C1.  No two stored volunteers have the same email, in any state that the requests reach
  from the empty store.  The handler does not hold this.  Its first check tests the email
  for truthiness only (the name and the contact are also tested for being text), the
  pattern is tested on the string that the email converts to, and the duplicate check
  compares with \<open>===\<close>, which never equates two arrays.  So the array \<open>["a@b.co"]\<close> passes
  as an email, twice: both requests are answered 201 and the two stored records have the
  same email.
\<close>

theorem C1_array_email_stored_twice:
  "run example_runtime
     [(amb ''u1'' 1000, PostVolunteers (volunteer_body (JArr [JStr (utf16 ''a@b.co'')]))),
      (amb ''u2'' 2000, PostVolunteers (volunteer_body (JArr [JStr (utf16 ''a@b.co'')])))]
     init_state =
   init_state\<lparr>volunteersStorage :=
     [(utf16 ''u1'', ann ''u1'' 1000 (JArr [JStr (utf16 ''a@b.co'')])),
      (utf16 ''u2'', ann ''u2'' 2000 (JArr [JStr (utf16 ''a@b.co'')]))]\<rparr> \<and>
   fst (handle example_runtime (amb ''u2'' 2000)
          (PostVolunteers (volunteer_body (JArr [JStr (utf16 ''a@b.co'')])))
          (init_state\<lparr>volunteersStorage :=
             [(utf16 ''u1'', ann ''u1'' 1000 (JArr [JStr (utf16 ''a@b.co'')]))]\<rparr>)) =
     Response 201 (VolunteerBody ''Volunteer created successfully''
        (ann ''u2'' 2000 (JArr [JStr (utf16 ''a@b.co'')])))"
proof -
  have "utf16 ''u2'' \<noteq> utf16 ''u1''" "\<not> utf16 ''u2'' < utf16 ''u1''"
    by (simp_all add: utf16_def)
  moreover have "list_all plain_volunteer (map snd (volunteersStorage init_state))"
    "list_all plain_volunteer (map snd (volunteersStorage
       (init_state\<lparr>volunteersStorage :=
          [(utf16 ''u1'', ann ''u1'' 1000 (JArr [JStr (utf16 ''a@b.co'')]))]\<rparr>)))"
    using plain_ann[OF plain_examples(5), of "''u1''" 1000] by (simp_all add: init_state_def)
  ultimately show ?thesis
    by (simp add: example_post_array_email init_state_def)
qed

text \<open>The emails of the records stored by that run are not distinct.\<close>

theorem C1_witness:
  "\<not> distinct (map (\<lambda>kv. vol_email (snd kv)) (volunteersStorage
      (run example_runtime
         [(amb ''u1'' 1000, PostVolunteers (volunteer_body (JArr [JStr (utf16 ''a@b.co'')]))),
          (amb ''u2'' 2000, PostVolunteers (volunteer_body (JArr [JStr (utf16 ''a@b.co'')])))]
         init_state)))"
  using C1_array_email_stored_twice
  by (simp add: ann_def del: run.simps)

text \<open>
  C2.  The checks of the volunteer handler run in a fixed order (fields present and of the
  right shape, then the format of the email, then the duplicate check), each failing with
  its own 400 and storing nothing; the first is to require that name, email and contact
  are non-empty text.  The handler does not test that the email is text.  A request whose
  email is the array \<open>["a@b.co"]\<close> passes all three checks, is answered 201 and is
  stored; a request whose email is \<open>true\<close> is answered with the error of the second check
  (the format), not with the one of the first.
\<close>

theorem C2_email_shape_not_checked_first:
  "post_volunteers example_runtime (amb ''u1'' 1000)
       (volunteer_body (JArr [JStr (utf16 ''a@b.co'')])) init_state =
     (Response 201 (VolunteerBody ''Volunteer created successfully''
        (ann ''u1'' 1000 (JArr [JStr (utf16 ''a@b.co'')]))),
      init_state\<lparr>volunteersStorage :=
        [(utf16 ''u1'', ann ''u1'' 1000 (JArr [JStr (utf16 ''a@b.co'')]))]\<rparr>) \<and>
   post_volunteers example_runtime (amb ''u1'' 1000) (volunteer_body (JBool True)) init_state =
     (Response 400 (StatusErrorBody 400 email_format_error), init_state)"
proof -
  have "post_volunteers example_runtime (amb ''u1'' 1000) (volunteer_body (JBool True)) init_state =
     (Response 400 (StatusErrorBody 400 email_format_error), init_state)"
    using true_email_fails
    by (simp add: post_volunteers_def body_prop_volunteer_body utf16_nonempty)
  moreover have "list_all plain_volunteer (map snd (volunteersStorage init_state))"
    by (simp add: init_state_def)
  ultimately show ?thesis
    by (simp add: example_post_array_email init_state_def)
qed

text \<open>So the first request is answered 201, and the second not with the error of the first check.\<close>

theorem C2_witness:
  "status_of (fst (post_volunteers example_runtime (amb ''u1'' 1000)
       (volunteer_body (JArr [JStr (utf16 ''a@b.co'')])) init_state)) = 201 \<and>
   fst (post_volunteers example_runtime (amb ''u1'' 1000) (volunteer_body (JBool True))
          init_state) \<noteq> Response 400 (ErrorBody volunteer_input_error)"
  using C2_email_shape_not_checked_first by simp






text \<open>
  C5.  A registration whose eventId, volunteerId and status are non-empty text is created
  with 201, whatever the state holds (so whether or not the two ids name stored records)
  and whatever the text of status is.  The record has \<open>attendedAt = null\<close>, and
  \<open>registeredAt\<close> is the time the constructor reads from the clock: no earlier than the
  start of the request, as the clock does not run backwards.
\<close>

theorem C5_registration_created:
  assumes "body_prop b ''eventId'' = JStr e" "e \<noteq> []"
    and "body_prop b ''volunteerId'' = JStr v" "v \<noteq> []"
    and "body_prop b ''status'' = JStr s" "s \<noteq> []"
    and "request_start \<le> clock a"
  shows "\<exists>r t. post_registrations a b st =
              (Response 201 (RegistrationBody ''Registration created successfully'' r),
               st\<lparr>registrationsStorage :=
                    StableBTreeMap_insert (uuidv4 a) r (registrationsStorage st)\<rparr>) \<and>
            reg_eventId r = JStr e \<and> reg_volunteerId r = JStr v \<and> reg_status r = JStr s \<and>
            reg_attendedAt r = None \<and>
            reg_registeredAt r = Date t \<and> request_start \<le> t"
proof -
  let ?r = "new_Registration a (JStr e) (JStr v) (JStr s)"
  have "post_registrations a b st =
              (Response 201 (RegistrationBody ''Registration created successfully'' ?r),
               st\<lparr>registrationsStorage :=
                    StableBTreeMap_insert (uuidv4 a) ?r (registrationsStorage st)\<rparr>)"
    using assms(1-6) by (rule post_registrations_created)
  moreover have "reg_eventId ?r = JStr e" "reg_volunteerId ?r = JStr v" "reg_status ?r = JStr s"
    "reg_attendedAt ?r = None" "reg_registeredAt ?r = Date (clock a)"
    by (simp_all add: new_Registration_def)
  ultimately show ?thesis using assms(7) by blast
qed

text \<open>
  A registration with the status \<open>Maybe\<close>, for an event and a volunteer that the empty
  store does not hold, for a request that started at 900 and read the clock at 1000.
\<close>

theorem C5_witness:
  "\<exists>r t. post_registrations (amb ''r1'' 1000) (registration_body (JStr (utf16 ''Maybe''))) init_state =
            (Response 201 (RegistrationBody ''Registration created successfully'' r),
             init_state\<lparr>registrationsStorage :=
               StableBTreeMap_insert (utf16 ''r1'') r (registrationsStorage init_state)\<rparr>) \<and>
          reg_eventId r = JStr (utf16 ''e1'') \<and> reg_volunteerId r = JStr (utf16 ''v1'') \<and>
          reg_status r = JStr (utf16 ''Maybe'') \<and> reg_attendedAt r = None \<and>
          reg_registeredAt r = Date t \<and> 900 \<le> t"
  using C5_registration_created[of "registration_body (JStr (utf16 ''Maybe''))" "utf16 ''e1''"
      "utf16 ''v1''" "utf16 ''Maybe''" 900 "amb ''r1'' 1000" init_state]
  by (simp add: body_prop_registration_body utf16_nonempty amb_def)

text \<open>
  C6.  With the other three fields valid, a feedback whose rating is 0 is rejected with
  the same 400 validation error as one whose rating is missing, and nothing is stored;
  every other number is accepted as the rating, whatever its range.
\<close>

theorem C6_feedback_rating_truthiness:
  assumes "body_prop b ''volunteerId'' = JStr v" "v \<noteq> []"
    and "body_prop b ''eventId'' = JStr e" "e \<noteq> []"
    and "body_prop b ''feedback'' = JStr f" "f \<noteq> []"
  shows "(body_prop b ''rating'' = JNum (Finite 0) \<or> body_prop b ''rating'' = JUndefined \<longrightarrow>
            post_feedbacks a b st = (Response 400 (ErrorBody feedback_input_error), st)) \<and>
         (\<forall>n. body_prop b ''rating'' = JNum n \<and> n \<noteq> Finite 0 \<longrightarrow>
            post_feedbacks a b st =
              (Response 201 (FeedbackBody ''Feedback created successfully''
                 (new_Feedback a (JStr v) (JStr e) (JStr f) (JNum n))),
               st\<lparr>feedbacksStorage :=
                    StableBTreeMap_insert (uuidv4 a)
                      (new_Feedback a (JStr v) (JStr e) (JStr f) (JNum n))
                      (feedbacksStorage st)\<rparr>))"
proof (intro conjI allI impI)
  assume "body_prop b ''rating'' = JNum (Finite 0) \<or> body_prop b ''rating'' = JUndefined"
  then have "\<not> truthy (body_prop b ''rating'')" by auto
  then show "post_feedbacks a b st = (Response 400 (ErrorBody feedback_input_error), st)"
    by (rule post_feedbacks_falsy_rating)
next
  fix n assume "body_prop b ''rating'' = JNum n \<and> n \<noteq> Finite 0"
  then show "post_feedbacks a b st =
              (Response 201 (FeedbackBody ''Feedback created successfully''
                 (new_Feedback a (JStr v) (JStr e) (JStr f) (JNum n))),
               st\<lparr>feedbacksStorage :=
                    StableBTreeMap_insert (uuidv4 a)
                      (new_Feedback a (JStr v) (JStr e) (JStr f) (JNum n))
                      (feedbacksStorage st)\<rparr>)"
    using post_feedbacks_created[OF assms] by blast
qed

text \<open>Ratings 0 and missing are rejected; 6 and -1 are accepted.\<close>

theorem C6_witness:
  "post_feedbacks (amb ''f1'' 1000) (feedback_body (Some (JNum (Finite 0)))) init_state =
     (Response 400 (ErrorBody feedback_input_error), init_state) \<and>
   post_feedbacks (amb ''f1'' 1000) (feedback_body None) init_state =
     (Response 400 (ErrorBody feedback_input_error), init_state) \<and>
   post_feedbacks (amb ''f1'' 1000) (feedback_body (Some (JNum (Finite 6)))) init_state =
     (Response 201 (FeedbackBody ''Feedback created successfully''
        (new_Feedback (amb ''f1'' 1000) (JStr (utf16 ''v1'')) (JStr (utf16 ''e1''))
           (JStr (utf16 ''Great'')) (JNum (Finite 6)))),
      init_state\<lparr>feedbacksStorage :=
        [(utf16 ''f1'', new_Feedback (amb ''f1'' 1000) (JStr (utf16 ''v1''))
           (JStr (utf16 ''e1'')) (JStr (utf16 ''Great'')) (JNum (Finite 6)))]\<rparr>) \<and>
   post_feedbacks (amb ''f1'' 1000) (feedback_body (Some (JNum (Finite (- 1))))) init_state =
     (Response 201 (FeedbackBody ''Feedback created successfully''
        (new_Feedback (amb ''f1'' 1000) (JStr (utf16 ''v1'')) (JStr (utf16 ''e1''))
           (JStr (utf16 ''Great'')) (JNum (Finite (- 1))))),
      init_state\<lparr>feedbacksStorage :=
        [(utf16 ''f1'', new_Feedback (amb ''f1'' 1000) (JStr (utf16 ''v1''))
           (JStr (utf16 ''e1'')) (JStr (utf16 ''Great'')) (JNum (Finite (- 1))))]\<rparr>)"
proof -
  have s: "feedbacksStorage init_state = []" "uuidv4 (amb ''f1'' 1000) = utf16 ''f1''"
    by (simp_all add: init_state_def amb_def)
  show ?thesis
    using C6_feedback_rating_truthiness[of "feedback_body (Some (JNum (Finite 0)))" "utf16 ''v1''"
        "utf16 ''e1''" "utf16 ''Great''" "amb ''f1'' 1000" init_state]
      C6_feedback_rating_truthiness[of "feedback_body None" "utf16 ''v1''"
        "utf16 ''e1''" "utf16 ''Great''" "amb ''f1'' 1000" init_state]
      C6_feedback_rating_truthiness[of "feedback_body (Some (JNum (Finite 6)))" "utf16 ''v1''"
        "utf16 ''e1''" "utf16 ''Great''" "amb ''f1'' 1000" init_state]
      C6_feedback_rating_truthiness[of "feedback_body (Some (JNum (Finite (- 1))))" "utf16 ''v1''"
        "utf16 ''e1''" "utf16 ''Great''" "amb ''f1'' 1000" init_state]
    by (simp add: body_prop_feedback_body utf16_nonempty s)
qed






text \<open>
  C9.  Every request touches one collection, the one of its route.  A request that is not
  answered 201 (so every 400) leaves the whole state as it was.  A request answered 201
  leaves the three other collections as they were and, the generated id being new to its
  collection, adds exactly one key, that id, to the keys of its own collection.  In all
  four collections the record under any other key stays as it was.  The response, and
  what is written to the route's collection, depend on no other collection: from a state
  \<open>other\<close> that agrees with \<open>st\<close> on the route's collection the response is the same and
  so is the collection afterwards.
\<close>

theorem C9_frame:
  assumes "handle rt a r st = (resp, st')"
  shows "(status_of resp \<noteq> 201 \<longrightarrow> st' = st) \<and>
         (status_of resp = 201 \<longrightarrow>
            same_off (collection_of r) st st' \<and>
            (uuidv4 a \<notin> set (keys_of (collection_of r) st) \<longrightarrow>
               (\<exists>xs ys. keys_of (collection_of r) st = xs @ ys \<and>
                        keys_of (collection_of r) st' = xs @ [uuidv4 a] @ ys))) \<and>
         (k \<noteq> uuidv4 a \<longrightarrow>
            map_of (volunteersStorage st') k =
              map_of (volunteersStorage st) k \<and>
            map_of (eventsStorage st') k =
              map_of (eventsStorage st) k \<and>
            map_of (registrationsStorage st') k =
              map_of (registrationsStorage st) k \<and>
            map_of (feedbacksStorage st') k =
              map_of (feedbacksStorage st) k) \<and>
         (same_on (collection_of r) st other \<longrightarrow>
            fst (handle rt a r other) = resp \<and>
            same_on (collection_of r) (snd (handle rt a r other)) st')"
proof -
  have fs: "fst (handle rt a r st) = resp" "snd (handle rt a r st) = st'"
    using assms by simp_all
  have 1: "status_of resp \<noteq> 201 \<longrightarrow> st' = st"
    and 2: "status_of resp = 201 \<longrightarrow>
            same_off (collection_of r) st st' \<and>
            (uuidv4 a \<notin> set (keys_of (collection_of r) st) \<longrightarrow>
               (\<exists>xs ys. keys_of (collection_of r) st = xs @ ys \<and>
                        keys_of (collection_of r) st' = xs @ [uuidv4 a] @ ys))"
    using handle_unchanged_or_created[OF assms] by auto
  have 3: "k \<noteq> uuidv4 a \<longrightarrow>
            map_of (volunteersStorage st') k =
              map_of (volunteersStorage st) k \<and>
            map_of (eventsStorage st') k =
              map_of (eventsStorage st) k \<and>
            map_of (registrationsStorage st') k =
              map_of (registrationsStorage st) k \<and>
            map_of (feedbacksStorage st') k =
              map_of (feedbacksStorage st) k"
    using handle_get_other[of k a rt r st] fs(2) by simp
  have 4: "same_on (collection_of r) st other \<longrightarrow>
            fst (handle rt a r other) = resp \<and>
            same_on (collection_of r) (snd (handle rt a r other)) st'"
    using handle_reads_own_collection[of r st other rt a]
      handle_writes_own_collection[of r st other rt a] fs by simp
  from 1 2 3 4 show ?thesis by blast
qed

text \<open>
  With Ann stored: a feedback without rating is answered 400 and changes nothing; a
  registration is created, leaves the volunteers, events and feedback as they were and
  adds the key \<open>r1\<close> to the registrations.
\<close>

theorem C9_witness:
  "handle example_runtime (amb ''r1'' 1000) (PostFeedbacks (feedback_body None))
       (init_state\<lparr>volunteersStorage := [(utf16 ''u1'', ann ''u1'' 1000 (JStr (utf16 ''a@b.co'')))]\<rparr>) =
     (Response 400 (ErrorBody feedback_input_error),
      init_state\<lparr>volunteersStorage := [(utf16 ''u1'', ann ''u1'' 1000 (JStr (utf16 ''a@b.co'')))]\<rparr>) \<and>
   same_off Registrations
     (init_state\<lparr>volunteersStorage := [(utf16 ''u1'', ann ''u1'' 1000 (JStr (utf16 ''a@b.co'')))]\<rparr>)
     (snd (handle example_runtime (amb ''r1'' 1000)
          (PostRegistrations (registration_body (JStr (utf16 ''Registered''))))
          (init_state\<lparr>volunteersStorage := [(utf16 ''u1'', ann ''u1'' 1000 (JStr (utf16 ''a@b.co'')))]\<rparr>))) \<and>
   (\<exists>xs ys. [] = xs @ ys \<and>
      keys_of Registrations
        (snd (handle example_runtime (amb ''r1'' 1000)
          (PostRegistrations (registration_body (JStr (utf16 ''Registered''))))
          (init_state\<lparr>volunteersStorage := [(utf16 ''u1'', ann ''u1'' 1000 (JStr (utf16 ''a@b.co'')))]\<rparr>))) =
      xs @ [utf16 ''r1''] @ ys)"
proof -
  let ?st = "init_state\<lparr>volunteersStorage := [(utf16 ''u1'', ann ''u1'' 1000 (JStr (utf16 ''a@b.co'')))]\<rparr>"
  let ?reg = "PostRegistrations (registration_body (JStr (utf16 ''Registered'')))"
  obtain resp st' where h: "handle example_runtime (amb ''r1'' 1000) ?reg ?st = (resp, st')"
    by (cases "handle example_runtime (amb ''r1'' 1000) ?reg ?st")
  with example_post_registration[of ?st] have r: "status_of resp = 201" by auto
  have k: "uuidv4 (amb ''r1'' 1000) \<notin> set (keys_of (collection_of ?reg) ?st)"
    "keys_of (collection_of ?reg) ?st = []" "uuidv4 (amb ''r1'' 1000) = utf16 ''r1''"
    "collection_of ?reg = Registrations"
    by (simp_all add: init_state_def amb_def)
  from C9_frame[OF h, THEN conjunct2, THEN conjunct1] r k
  have "same_off Registrations ?st st' \<and>
     (\<exists>xs ys. [] = xs @ ys \<and> keys_of Registrations st' = xs @ [utf16 ''r1''] @ ys)"
    by simp
  moreover have "snd (handle example_runtime (amb ''r1'' 1000) ?reg ?st) = st'"
    using h by simp
  ultimately show ?thesis
    using example_post_feedback_missing[of "amb ''r1'' 1000" ?st] by simp
qed



end
